theory Spec2Isabelle
  imports Complex_Main "HOL-Library.Word" "HOL-Library.AList" "HOL-Library.Log_Nat"
    "HOL-Library.Signed_Division"
begin

section \<open>Go values\<close>

text \<open>
  \<^verbatim>\<open>int64\<close> is a 64-bit word read as a signed number with \<open>sint\<close>; \<open>+\<close> wraps as Go's
  does. Go's \<^verbatim>\<open>int\<close> is taken at 64 bits (the size on every platform the DuckDB driver
  supports). An \<^verbatim>\<open>error\<close> is its message; a run-time panic is kept apart from a returned
  error, because callers that swallow an error do not swallow a panic. A \<^verbatim>\<open>time.Time\<close> is
  an instant in nanoseconds since the epoch.
\<close>

type_synonym int64 = "64 word"
type_synonym goint = "64 word"
type_synonym time = int

datatype error = Error string | Panic string

fun is_panic :: "error option \<Rightarrow> bool" where
  "is_panic (Some (Panic m)) = True"
| "is_panic e = False"

fun message :: "error \<Rightarrow> string" where
  "message (Error m) = m"
| "message (Panic m) = ''panic: '' @ m"

text \<open>\<^verbatim>\<open>fmt.Errorf("...: %w", err)\<close>: the message is prefixed.\<close>

fun Errorf :: "string \<Rightarrow> error \<Rightarrow> error" where
  "Errorf p (Error m) = Error (p @ m)"
| "Errorf p (Panic m) = Panic m"

subsection \<open>Decimal formatting (\<^verbatim>\<open>strconv.Itoa\<close>, \<^verbatim>\<open>strconv.FormatInt\<close>, \<^verbatim>\<open>%d\<close>, \<^verbatim>\<open>%04d\<close>)\<close>

definition digit_char :: "nat \<Rightarrow> char" where
  "digit_char d = ''0123456789'' ! (d mod 10)"

fun nat_dec :: "nat \<Rightarrow> string" where
  "nat_dec n = (if n < 10 then [digit_char n] else nat_dec (n div 10) @ [digit_char (n mod 10)])"

declare nat_dec.simps [simp del]

definition FormatInt :: "int \<Rightarrow> string" where
  "FormatInt i = (if i < 0 then CHR ''-'' # nat_dec (nat (- i)) else nat_dec (nat i))"

definition Sprintf_04d :: "int \<Rightarrow> string" where
  "Sprintf_04d i =
     (if i < 0
      then CHR ''-'' # replicate (3 - length (nat_dec (nat (- i)))) CHR ''0'' @ nat_dec (nat (- i))
      else replicate (4 - length (nat_dec (nat i))) CHR ''0'' @ nat_dec (nat i))"

section \<open>The data model of storage.go and of the exporter\<close>

type_synonym OutputFormat = string

definition FormatCSV :: OutputFormat where "FormatCSV = ''csv''"
definition FormatParquet :: OutputFormat where "FormatParquet = ''parquet''"

record RedisRecord =
  Key :: string
  Type :: string
  Value :: string
  TTLSeconds :: int64
  ExportedAt :: string

record StorageConfig =
  OutputDir :: string
  Format :: OutputFormat
  MaxRecords :: int64

record PartitionInfo =
  PartitionID :: goint
  DataType :: string
  FileName :: string
  RecordCount :: int64
  FileSizeBytes :: int64
  PStartTime :: time
  PEndTime :: time

record ExportMetadata =
  ExportID :: string
  Pattern :: string
  StartTime :: time
  EndTime :: time
  TotalKeys :: int64
  Partitions :: "PartitionInfo list"

text \<open>
  The three handles are \<open>None\<close> for Go's \<^verbatim>\<open>nil\<close>. An open \<^verbatim>\<open>*os.File\<close> is the path of
  the file; an open \<^verbatim>\<open>*sql.DB\<close> is the number of the call that opened it. A \<^verbatim>\<open>*csv.Writer\<close>
  is the state of the writer: the file it writes to, the rows still in its buffer (it
  wraps a \<^verbatim>\<open>bufio.Writer\<close>) and the error of a failed write to the file, which the writer
  keeps. \<^verbatim>\<open>metadata\<close> and \<^verbatim>\<open>csvWriter\<close> are pointers that only the FileManager holds, so
  the record holds the values.
\<close>

record csv_writer =
  cw_path :: string
  cw_buffered :: "string list list"
  cw_error :: "string option"

record FileManager =
  config :: StorageConfig
  db :: "nat option"
  tableName :: string
  recordCount :: int64
  partitionID :: goint
  metadata :: ExportMetadata
  currentPartitionPath :: string
  csvWriter :: "csv_writer option"
  csvFile :: "string option"

section \<open>The world outside the program\<close>

text \<open>
  Everything the code calls outside the repository (the file system, the clock, the DuckDB
  engine, the Redis client) is an environment \<open>env\<close> that answers the \<open>t\<close>-th external
  call of the run: whether it fails (\<open>fault\<close>), what the clock shows, what a stat reports,
  what the store replies (a reply is \<open>Inl\<close> the error message or \<open>Inr\<close> the value; a
  duration is its \<^verbatim>\<open>int64\<close> of nanoseconds; the pipeline's \<^verbatim>\<open>Exec\<close> gives its own error and
  the per-key results of the queued \<^verbatim>\<open>TYPE\<close> and \<^verbatim>\<open>TTL\<close>). The program is deterministic, so every behaviour of the outside
  is some such environment. The \<open>world\<close> counts the calls made (\<open>tick\<close>) and holds what
  the calls have produced: directories, files, the rows accepted by the encoders in write
  order (each with the partition id stamped on it), standard output and the log.

  A CSV file holds the rows that have left the buffer of its \<^verbatim>\<open>csv.Writer\<close>, row by row
  (a row that a flush cuts in two is counted with the buffer). Whether a \<^verbatim>\<open>Write\<close> finds
  the buffer full depends on the bytes written so far; here the environment says so
  (\<open>spill\<close>). A Parquet file is opaque.
\<close>

datatype file_data = Lines "string list list" | ParquetData | JsonData ExportMetadata

record env =
  fault :: "nat \<Rightarrow> string option"
  spill :: "nat \<Rightarrow> bool"
  clock :: "nat \<Rightarrow> time"
  stat_size :: "nat \<Rightarrow> int64"
  time_Format :: "string \<Rightarrow> string \<Rightarrow> time \<Rightarrow> string"
  path_Clean :: "string \<Rightarrow> string"
  redis_Scan :: "nat \<Rightarrow> 64 word \<Rightarrow> string \<Rightarrow> int64 \<Rightarrow> string + (string list \<times> 64 word)"
  redis_PipeExec :: "nat \<Rightarrow> string list \<Rightarrow>
     string option \<times> (string \<Rightarrow> string + string) \<times> (string \<Rightarrow> string + int64)"
  redis_Type :: "nat \<Rightarrow> string \<Rightarrow> string + string"
  redis_TTL :: "nat \<Rightarrow> string \<Rightarrow> string + int64"
  redis_Get :: "nat \<Rightarrow> string \<Rightarrow> string + string"
  redis_SScan :: "nat \<Rightarrow> string \<Rightarrow> 64 word \<Rightarrow> string + (string list \<times> 64 word)"
  redis_HScan :: "nat \<Rightarrow> string \<Rightarrow> 64 word \<Rightarrow> string + (string list \<times> 64 word)"
  redis_ZScan :: "nat \<Rightarrow> string \<Rightarrow> 64 word \<Rightarrow> string + (string list \<times> 64 word)"
  redis_LLen :: "nat \<Rightarrow> string \<Rightarrow> string + int64"
  redis_LRange :: "nat \<Rightarrow> string \<Rightarrow> int64 \<Rightarrow> int64 \<Rightarrow> string + string list"
  redis_Close :: "nat \<Rightarrow> string option"

record world =
  tick :: nat
  dirs :: "string list"
  files :: "(string \<times> file_data) list"
  rows_out :: "(RedisRecord \<times> goint) list"
  stdout :: "string list"
  logged :: "string list"

definition tick_next :: "world \<Rightarrow> world" where
  "tick_next w = w\<lparr>tick := Suc (tick w)\<rparr>"

definition time_Now :: "env \<Rightarrow> world \<Rightarrow> time \<times> world" where
  "time_Now env w = (clock env (tick w), tick_next w)"

text \<open>A call that can fail and, here, leaves nothing behind: \<^verbatim>\<open>File.Close\<close>, \<^verbatim>\<open>sql.DB.Exec\<close>
  of CREATE TABLE, INSERT and DROP TABLE, \<^verbatim>\<open>sql.DB.Close\<close>.\<close>

definition ext_call :: "env \<Rightarrow> world \<Rightarrow> error option \<times> world" where
  "ext_call env w = (map_option Error (fault env (tick w)), tick_next w)"

definition os_MkdirAll :: "env \<Rightarrow> string \<Rightarrow> world \<Rightarrow> error option \<times> world" where
  "os_MkdirAll env p w =
     (case fault env (tick w) of
        Some m \<Rightarrow> (Some (Error m), tick_next w)
      | None \<Rightarrow> (None, tick_next (w\<lparr>dirs := List.insert p (dirs w)\<rparr>)))"

text \<open>\<^verbatim>\<open>os.Create\<close> creates the file or truncates it.\<close>

definition os_Create :: "env \<Rightarrow> string \<Rightarrow> world \<Rightarrow> error option \<times> world" where
  "os_Create env p w =
     (case fault env (tick w) of
        Some m \<Rightarrow> (Some (Error m), tick_next w)
      | None \<Rightarrow> (None, tick_next (w\<lparr>files := AList.update p (Lines []) (files w)\<rparr>)))"

definition lines_of :: "world \<Rightarrow> string \<Rightarrow> string list list" where
  "lines_of w p = (case map_of (files w) p of Some (Lines ls) \<Rightarrow> ls | _ \<Rightarrow> [])"

text \<open>
  \<^verbatim>\<open>csv.Writer.Write\<close> puts the row into the buffer. When the buffer is full the rows in
  it are written to the file first; if that fails the writer keeps the error, and this
  and every later \<^verbatim>\<open>Write\<close> return it. \<^verbatim>\<open>csv.Writer.Flush\<close> writes the buffered rows to
  the file and returns nothing: a failure is kept in the writer only.
\<close>

definition append_lines :: "string \<Rightarrow> string list list \<Rightarrow> world \<Rightarrow> world" where
  "append_lines p rows w = w\<lparr>files := AList.update p (Lines (lines_of w p @ rows)) (files w)\<rparr>"

definition csv_Write ::
  "env \<Rightarrow> csv_writer \<Rightarrow> string list \<Rightarrow> world \<Rightarrow> error option \<times> csv_writer \<times> world" where
  "csv_Write env cw row w =
     (case cw_error cw of
        Some m \<Rightarrow> (Some (Error m), cw, tick_next w)
      | None \<Rightarrow>
          if spill env (tick w)
          then (case fault env (tick w) of
                  Some m \<Rightarrow> (Some (Error m), cw\<lparr>cw_error := Some m\<rparr>, tick_next w)
                | None \<Rightarrow>
                    (None, cw\<lparr>cw_buffered := [row]\<rparr>,
                     tick_next (append_lines (cw_path cw) (cw_buffered cw) w)))
          else (None, cw\<lparr>cw_buffered := cw_buffered cw @ [row]\<rparr>, tick_next w))"

definition csv_Flush :: "env \<Rightarrow> csv_writer \<Rightarrow> world \<Rightarrow> csv_writer \<times> world" where
  "csv_Flush env cw w =
     (if cw_error cw \<noteq> None \<or> cw_buffered cw = [] then (cw, tick_next w)
      else (case fault env (tick w) of
              Some m \<Rightarrow> (cw\<lparr>cw_error := Some m\<rparr>, tick_next w)
            | None \<Rightarrow>
                (cw\<lparr>cw_buffered := []\<rparr>,
                 tick_next (append_lines (cw_path cw) (cw_buffered cw) w))))"

text \<open>\<^verbatim>\<open>File.Stat\<close> and \<^verbatim>\<open>os.Stat\<close>, read for \<^verbatim>\<open>Size()\<close> only.\<close>

definition file_Stat :: "env \<Rightarrow> world \<Rightarrow> (error + int64) \<times> world" where
  "file_Stat env w =
     (case fault env (tick w) of
        Some m \<Rightarrow> (Inl (Error m), tick_next w)
      | None \<Rightarrow> (Inr (stat_size env (tick w)), tick_next w))"

definition sql_Open :: "env \<Rightarrow> world \<Rightarrow> (error + nat) \<times> world" where
  "sql_Open env w =
     (case fault env (tick w) of
        Some m \<Rightarrow> (Inl (Error m), tick_next w)
      | None \<Rightarrow> (Inr (tick w), tick_next w))"

text \<open>\<^verbatim>\<open>COPY table TO 'path' (FORMAT 'parquet')\<close>.\<close>

definition db_Copy :: "env \<Rightarrow> string \<Rightarrow> world \<Rightarrow> error option \<times> world" where
  "db_Copy env p w =
     (case fault env (tick w) of
        Some m \<Rightarrow> (Some (Error m), tick_next w)
      | None \<Rightarrow> (None, tick_next (w\<lparr>files := AList.update p ParquetData (files w)\<rparr>)))"

definition json_Encode :: "env \<Rightarrow> string \<Rightarrow> ExportMetadata \<Rightarrow> world \<Rightarrow> error option \<times> world" where
  "json_Encode env p md w =
     (case fault env (tick w) of
        Some m \<Rightarrow> (Some (Error m), tick_next w)
      | None \<Rightarrow> (None, tick_next (w\<lparr>files := AList.update p (JsonData md) (files w)\<rparr>)))"

definition fmt_Print :: "string \<Rightarrow> world \<Rightarrow> world" where
  "fmt_Print s w = w\<lparr>stdout := stdout w @ [s]\<rparr>"

definition log_Printf :: "string \<Rightarrow> world \<Rightarrow> world" where
  "log_Printf s w = w\<lparr>logged := logged w @ [s]\<rparr>"

text \<open>\<^verbatim>\<open>filepath.Join\<close>: the elements from the first non-empty one on, joined by a slash,
  then cleaned. \<^verbatim>\<open>filepath.Clean\<close> is the environment's.\<close>

fun join_slash :: "string list \<Rightarrow> string" where
  "join_slash [] = []"
| "join_slash [e] = e"
| "join_slash (e # es) = e @ ''/'' @ join_slash es"

definition filepath_Join :: "env \<Rightarrow> string list \<Rightarrow> string" where
  "filepath_Join env elem =
     (case dropWhile (\<lambda>e. e = []) elem of [] \<Rightarrow> [] | es \<Rightarrow> path_Clean env (join_slash es))"

text \<open>\<^verbatim>\<open>filepath.Base\<close>: the last element of the path, trailing slashes removed first.\<close>

definition filepath_Base :: "string \<Rightarrow> string" where
  "filepath_Base p =
     (if p = [] then ''.''
      else let q = rev (dropWhile (\<lambda>c. c = CHR ''/'') (rev p))
           in if q = [] then ''/'' else rev (takeWhile (\<lambda>c. c \<noteq> CHR ''/'') (rev q)))"

section \<open>storage.go: the FileManager\<close>

text \<open>
  Every method takes the FileManager and the world and returns both as the call leaves
  them, with the error (\<open>None\<close> for \<^verbatim>\<open>nil\<close>): Go updates the fields in place, so what a
  failing call has already changed stays changed.
\<close>

definition zero_time :: time where
  "zero_time = - 62135596800000000000"

definition NewFileManager :: "env \<Rightarrow> StorageConfig \<Rightarrow> world \<Rightarrow> FileManager \<times> world" where
  "NewFileManager env cfg w =
     (let (t1, w1) = time_Now env w;
          (t2, w2) = time_Now env w1
      in (\<lparr>config = cfg, db = None, tableName = ''redis_data'', recordCount = 0,
           partitionID = 0,
           metadata = \<lparr>ExportID = ''export_'' @ FormatInt (t1 div 1000000000), Pattern = [],
                        StartTime = t2, EndTime = zero_time, TotalKeys = 0, Partitions = []\<rparr>,
           currentPartitionPath = [], csvWriter = None, csvFile = None\<rparr>, w2))"

definition CreateHivePartitionPath :: "env \<Rightarrow> FileManager \<Rightarrow> time \<Rightarrow> string" where
  "CreateHivePartitionPath env fm timestamp =
     (let year = time_Format env ''Local'' ''2006'' timestamp;
          month = time_Format env ''Local'' ''01'' timestamp;
          day = time_Format env ''Local'' ''02'' timestamp;
          hour = time_Format env ''Local'' ''15'' timestamp
      in filepath_Join env
           [OutputDir (config fm), ''year='' @ year, ''month='' @ month, ''day='' @ day,
            ''hour='' @ hour])"

definition csv_headers :: "string list" where
  "csv_headers = [''key'', ''type'', ''value'', ''ttl_seconds'', ''exported_at'', ''partition_id'']"

definition initializeCSVWriter ::
  "env \<Rightarrow> FileManager \<Rightarrow> string \<Rightarrow> world \<Rightarrow> error option \<times> FileManager \<times> world" where
  "initializeCSVWriter env fm partitionPath w =
     (let fileName = ''redis_data_part_'' @ Sprintf_04d (sint (partitionID fm)) @ ''.csv'';
          filePath = filepath_Join env [partitionPath, fileName]
      in case os_Create env filePath w of
           (Some e, w1) \<Rightarrow> (Some (Errorf ''failed to create CSV file: '' e), fm, w1)
         | (None, w1) \<Rightarrow>
             (let writer = \<lparr>cw_path = filePath, cw_buffered = [], cw_error = None\<rparr>
              in case csv_Write env writer csv_headers w1 of
                   (Some e, writer1, w2) \<Rightarrow>
                     (Some (Errorf ''failed to write CSV headers: '' e),
                      fm\<lparr>csvFile := Some filePath, csvWriter := Some writer1\<rparr>, w2)
                 | (None, writer1, w2) \<Rightarrow>
                     (None, fm\<lparr>csvFile := Some filePath, csvWriter := Some writer1\<rparr>, w2)))"

definition initializeDuckDBWriter ::
  "env \<Rightarrow> FileManager \<Rightarrow> string \<Rightarrow> world \<Rightarrow> error option \<times> FileManager \<times> world" where
  "initializeDuckDBWriter env fm partitionPath w =
     (case sql_Open env w of
        (Inl e, w1) \<Rightarrow> (Some (Errorf ''failed to open DuckDB connection: '' e), fm, w1)
      | (Inr h, w1) \<Rightarrow>
          (let fm1 = fm\<lparr>db := Some h\<rparr>
           in case ext_call env w1 of
                (Some e, w2) \<Rightarrow> (Some (Errorf ''failed to create table: '' e), fm1, w2)
              | (None, w2) \<Rightarrow> (None, fm1, w2)))"

definition initializeWriter ::
  "env \<Rightarrow> FileManager \<Rightarrow> world \<Rightarrow> error option \<times> FileManager \<times> world" where
  "initializeWriter env fm w =
     (let (now, w1) = time_Now env w;
          fm1 = fm\<lparr>partitionID := partitionID fm + 1\<rparr>;
          partitionPath = CreateHivePartitionPath env fm1 now
      in case os_MkdirAll env partitionPath w1 of
           (Some e, w2) \<Rightarrow> (Some (Errorf ''failed to create partition directory: '' e), fm1, w2)
         | (None, w2) \<Rightarrow>
             (let fm2 = fm1\<lparr>currentPartitionPath := partitionPath\<rparr>
              in if Format (config fm2) = FormatCSV then initializeCSVWriter env fm2 partitionPath w2
                 else if Format (config fm2) = FormatParquet
                 then initializeDuckDBWriter env fm2 partitionPath w2
                 else (Some (Error (''unsupported format: '' @ Format (config fm2))), fm2, w2)))"

text \<open>A method called on a \<^verbatim>\<open>nil\<close> writer or connection dereferences it and panics.\<close>

definition writeCSVRecord ::
  "env \<Rightarrow> FileManager \<Rightarrow> RedisRecord \<Rightarrow> world \<Rightarrow> error option \<times> FileManager \<times> world" where
  "writeCSVRecord env fm record w =
     (let row = [Key record, Type record, Value record, FormatInt (sint (TTLSeconds record)),
                 ExportedAt record, FormatInt (sint (partitionID fm))]
      in case csvWriter fm of
           None \<Rightarrow> (Some (Panic ''nil pointer dereference''), fm, w)
         | Some writer \<Rightarrow>
             (case csv_Write env writer row w of
                (Some e, writer1, w1) \<Rightarrow>
                  (Some (Errorf ''failed to write CSV record: '' e), fm\<lparr>csvWriter := Some writer1\<rparr>, w1)
              | (None, writer1, w1) \<Rightarrow>
                  (None, fm\<lparr>csvWriter := Some writer1, recordCount := recordCount fm + 1\<rparr>,
                   w1\<lparr>rows_out := rows_out w1 @ [(record, partitionID fm)]\<rparr>)))"

definition writeDuckDBRecord ::
  "env \<Rightarrow> FileManager \<Rightarrow> RedisRecord \<Rightarrow> world \<Rightarrow> error option \<times> FileManager \<times> world" where
  "writeDuckDBRecord env fm record w =
     (case db fm of
        None \<Rightarrow> (Some (Panic ''nil pointer dereference''), fm, w)
      | Some h \<Rightarrow>
          (case ext_call env w of
             (Some e, w1) \<Rightarrow> (Some (Errorf ''failed to insert record: '' e), fm, w1)
           | (None, w1) \<Rightarrow>
               (None, fm\<lparr>recordCount := recordCount fm + 1\<rparr>,
                w1\<lparr>rows_out := rows_out w1 @ [(record, partitionID fm)]\<rparr>)))"

text \<open>\<^verbatim>\<open>if fm.csvWriter != nil { fm.csvWriter.Flush() }\<close>, in \<^verbatim>\<open>rotateCSVWriter\<close> and in
  \<^verbatim>\<open>FlushAll\<close>.\<close>

definition flush_csvWriter :: "env \<Rightarrow> FileManager \<Rightarrow> world \<Rightarrow> FileManager \<times> world" where
  "flush_csvWriter env fm w =
     (case csvWriter fm of
        None \<Rightarrow> (fm, w)
      | Some writer \<Rightarrow>
          (case csv_Flush env writer w of (writer1, w1) \<Rightarrow> (fm\<lparr>csvWriter := Some writer1\<rparr>, w1)))"

definition rotateCSVWriter ::
  "env \<Rightarrow> FileManager \<Rightarrow> world \<Rightarrow> error option \<times> FileManager \<times> world" where
  "rotateCSVWriter env fm0 w0 =
     (case flush_csvWriter env fm0 w0 of
        (fm, w) \<Rightarrow>
          (case csvFile fm of
             None \<Rightarrow> (None, fm\<lparr>recordCount := 0\<rparr>, w)
           | Some p \<Rightarrow>
               (case file_Stat env w of
                  (Inl e, w1) \<Rightarrow> (Some e, fm, w1)
                | (Inr sz, w1) \<Rightarrow>
                    (let (t1, w2) = time_Now env w1;
                         (t2, w3) = time_Now env w2;
                         partitionInfo =
                           \<lparr>PartitionID = partitionID fm, DataType = ''redis_data'',
                            FileName = filepath_Base p, RecordCount = recordCount fm,
                            FileSizeBytes = sz, PStartTime = t1 - 3600000000000, PEndTime = t2\<rparr>;
                         fm1 = fm\<lparr>metadata := (metadata fm)
                                 \<lparr>Partitions := Partitions (metadata fm) @ [partitionInfo]\<rparr>\<rparr>
                     in case ext_call env w3 of
                          (Some e, w4) \<Rightarrow> (Some (Errorf ''failed to close CSV file: '' e), fm1, w4)
                        | (None, w4) \<Rightarrow>
                            (None, fm1\<lparr>csvFile := None, csvWriter := None, recordCount := 0\<rparr>, w4)))))"

definition rotateDuckDBWriter ::
  "env \<Rightarrow> FileManager \<Rightarrow> world \<Rightarrow> error option \<times> FileManager \<times> world" where
  "rotateDuckDBWriter env fm w =
     (case db fm of
        None \<Rightarrow> (None, fm, w)
      | Some h \<Rightarrow>
          (let fileName = ''redis_data_part_'' @ Sprintf_04d (sint (partitionID fm)) @ ''.parquet'';
               filePath = filepath_Join env [currentPartitionPath fm, fileName]
           in case db_Copy env filePath w of
                (Some e, w1) \<Rightarrow> (Some (Errorf ''failed to export to Parquet: '' e), fm, w1)
              | (None, w1) \<Rightarrow>
                  (case file_Stat env w1 of
                     (Inl e, w2) \<Rightarrow> (Some (Errorf ''failed to stat Parquet file: '' e), fm, w2)
                   | (Inr sz, w2) \<Rightarrow>
                       (let (t1, w3) = time_Now env w2;
                            (t2, w4) = time_Now env w3;
                            partitionInfo =
                              \<lparr>PartitionID = partitionID fm, DataType = ''redis_data'',
                               FileName = fileName, RecordCount = recordCount fm,
                               FileSizeBytes = sz, PStartTime = t1 - 3600000000000,
                               PEndTime = t2\<rparr>;
                            fm1 = fm\<lparr>metadata := (metadata fm)
                                    \<lparr>Partitions := Partitions (metadata fm) @ [partitionInfo]\<rparr>\<rparr>;
                            (dropped, w5) = ext_call env w4;
                            w6 = (case dropped of
                                    Some e \<Rightarrow> fmt_Print (''Warning: failed to drop table: '' @ message e) w5
                                  | None \<Rightarrow> w5)
                        in case ext_call env w6 of
                             (Some e, w7) \<Rightarrow>
                               (Some (Errorf ''failed to close database connection: '' e), fm1, w7)
                           | (None, w7) \<Rightarrow> (None, fm1\<lparr>db := None, recordCount := 0\<rparr>, w7)))))"

definition RotateWriter ::
  "env \<Rightarrow> FileManager \<Rightarrow> world \<Rightarrow> error option \<times> FileManager \<times> world" where
  "RotateWriter env fm w =
     (if recordCount fm = 0 then (None, fm, w)
      else if Format (config fm) = FormatCSV then rotateCSVWriter env fm w
      else if Format (config fm) = FormatParquet then rotateDuckDBWriter env fm w
      else (Some (Error (''unsupported format: '' @ Format (config fm))), fm, w))"

definition WriteRecord ::
  "env \<Rightarrow> FileManager \<Rightarrow> RedisRecord \<Rightarrow> world \<Rightarrow> error option \<times> FileManager \<times> world" where
  "WriteRecord env fm record w =
     (case (if csvWriter fm = None \<and> db fm = None then initializeWriter env fm w
            else (None, fm, w)) of
        (Some e, fm1, w1) \<Rightarrow> (Some e, fm1, w1)
      | (None, fm1, w1) \<Rightarrow>
          (case (if sint (MaxRecords (config fm1)) \<le> sint (recordCount fm1)
                 then (case RotateWriter env fm1 w1 of
                         (Some e, fm2, w2) \<Rightarrow> (Some e, fm2, w2)
                       | (None, fm2, w2) \<Rightarrow> initializeWriter env fm2 w2)
                 else (None, fm1, w1)) of
             (Some e, fm3, w3) \<Rightarrow> (Some e, fm3, w3)
           | (None, fm3, w3) \<Rightarrow>
               (if Format (config fm3) = FormatCSV then writeCSVRecord env fm3 record w3
                else if Format (config fm3) = FormatParquet then writeDuckDBRecord env fm3 record w3
                else (Some (Error (''unsupported format: '' @ Format (config fm3))), fm3, w3))))"

text \<open>\<^verbatim>\<open>FlushAll\<close>: for CSV the writer is flushed; DuckDB needs nothing, and so does any
  other format (the \<^verbatim>\<open>switch\<close> has no default).\<close>

definition FlushAll :: "env \<Rightarrow> FileManager \<Rightarrow> world \<Rightarrow> FileManager \<times> world" where
  "FlushAll env fm w = (if Format (config fm) = FormatCSV then flush_csvWriter env fm w else (fm, w))"

definition SetMetadata :: "FileManager \<Rightarrow> string \<Rightarrow> int64 \<Rightarrow> FileManager" where
  "SetMetadata fm pattern totalKeys =
     fm\<lparr>metadata := (metadata fm)\<lparr>Pattern := pattern, TotalKeys := totalKeys\<rparr>\<rparr>"

definition metadataPath :: "env \<Rightarrow> FileManager \<Rightarrow> string" where
  "metadataPath env fm = filepath_Join env [OutputDir (config fm), ''export_metadata.json'']"

text \<open>The deferred \<^verbatim>\<open>metadataFile.Close()\<close> of \<^verbatim>\<open>Close\<close>: a failure is printed.\<close>

definition close_metadataFile :: "env \<Rightarrow> world \<Rightarrow> world" where
  "close_metadataFile env w =
     (case ext_call env w of
        (Some e, w1) \<Rightarrow> fmt_Print (''Warning: failed to close metadata file: '' @ message e) w1
      | (None, w1) \<Rightarrow> w1)"

definition Close :: "env \<Rightarrow> FileManager \<Rightarrow> world \<Rightarrow> error option \<times> FileManager \<times> world" where
  "Close env fm w =
     (case (if 0 < sint (recordCount fm)
            then (case RotateWriter env fm w of
                    (Some e, fm1, w1) \<Rightarrow>
                      (if is_panic (Some e) then (Some e, fm1, w1)
                       else (None, fm1, fmt_Print (''Error rotating final writer: '' @ message e) w1))
                  | (None, fm1, w1) \<Rightarrow> (None, fm1, w1))
            else (None, fm, w)) of
        (Some e, fm1, w1) \<Rightarrow> (Some e, fm1, w1)
      | (None, fm1, w1) \<Rightarrow>
          (let (now, w2) = time_Now env w1;
               fm2 = fm1\<lparr>metadata := (metadata fm1)\<lparr>EndTime := now\<rparr>\<rparr>
           in case os_Create env (metadataPath env fm2) w2 of
                (Some e, w3) \<Rightarrow> (Some (Errorf ''failed to create metadata file: '' e), fm2, w3)
              | (None, w3) \<Rightarrow>
                  (case json_Encode env (metadataPath env fm2) (metadata fm2) w3 of
                     (Some e, w4) \<Rightarrow>
                       (Some (Errorf ''failed to write metadata: '' e), fm2, close_metadataFile env w4)
                   | (None, w4) \<Rightarrow> (None, fm2, close_metadataFile env w4))))"

definition GetQueryPath :: "env \<Rightarrow> FileManager \<Rightarrow> string" where
  "GetQueryPath env fm = filepath_Join env [OutputDir (config fm), ''**'', ''*.'' @ Format (config fm)]"

section \<open>The exporter\<close>

text \<open>The Redis client and the context are the environment; the FileManager behind the
  pointer is held by value and handed back by every method.\<close>

record RedisExporter =
  fileManager :: FileManager
  batchSize :: goint
  flushInterval :: goint

definition sum_reply :: "string + 'a \<Rightarrow> error + 'a" where
  "sum_reply r = (case r of Inl m \<Rightarrow> Inl (Error m) | Inr v \<Rightarrow> Inr v)"

definition client_Scan ::
  "env \<Rightarrow> 64 word \<Rightarrow> string \<Rightarrow> int64 \<Rightarrow> world \<Rightarrow> (error + (string list \<times> 64 word)) \<times> world" where
  "client_Scan env cursor pattern n w = (sum_reply (redis_Scan env (tick w) cursor pattern n), tick_next w)"

definition client_PipeExec ::
  "env \<Rightarrow> string list \<Rightarrow> world \<Rightarrow>
     string option \<times> (string \<Rightarrow> string + string) \<times> (string \<Rightarrow> string + int64) \<times> world" where
  "client_PipeExec env keys w =
     (case redis_PipeExec env (tick w) keys of
        (e, keyTypes, keyTTLs) \<Rightarrow> (e, keyTypes, keyTTLs, tick_next w))"

definition client_Type :: "env \<Rightarrow> string \<Rightarrow> world \<Rightarrow> (error + string) \<times> world" where
  "client_Type env key w = (sum_reply (redis_Type env (tick w) key), tick_next w)"

definition client_TTL :: "env \<Rightarrow> string \<Rightarrow> world \<Rightarrow> (error + int64) \<times> world" where
  "client_TTL env key w = (sum_reply (redis_TTL env (tick w) key), tick_next w)"

definition client_Get :: "env \<Rightarrow> string \<Rightarrow> world \<Rightarrow> (error + string) \<times> world" where
  "client_Get env key w = (sum_reply (redis_Get env (tick w) key), tick_next w)"

definition client_SScan ::
  "env \<Rightarrow> string \<Rightarrow> 64 word \<Rightarrow> world \<Rightarrow> (error + (string list \<times> 64 word)) \<times> world" where
  "client_SScan env key cursor w = (sum_reply (redis_SScan env (tick w) key cursor), tick_next w)"

definition client_HScan ::
  "env \<Rightarrow> string \<Rightarrow> 64 word \<Rightarrow> world \<Rightarrow> (error + (string list \<times> 64 word)) \<times> world" where
  "client_HScan env key cursor w = (sum_reply (redis_HScan env (tick w) key cursor), tick_next w)"

definition client_ZScan ::
  "env \<Rightarrow> string \<Rightarrow> 64 word \<Rightarrow> world \<Rightarrow> (error + (string list \<times> 64 word)) \<times> world" where
  "client_ZScan env key cursor w = (sum_reply (redis_ZScan env (tick w) key cursor), tick_next w)"

definition client_LLen :: "env \<Rightarrow> string \<Rightarrow> world \<Rightarrow> (error + int64) \<times> world" where
  "client_LLen env key w = (sum_reply (redis_LLen env (tick w) key), tick_next w)"

definition client_LRange ::
  "env \<Rightarrow> string \<Rightarrow> int64 \<Rightarrow> int64 \<Rightarrow> world \<Rightarrow> (error + string list) \<times> world" where
  "client_LRange env key start stop w = (sum_reply (redis_LRange env (tick w) key start stop), tick_next w)"

definition client_Close :: "env \<Rightarrow> world \<Rightarrow> error option \<times> world" where
  "client_Close env w = (map_option Error (redis_Close env (tick w)), tick_next w)"

subsection \<open>\<^verbatim>\<open>int64(ttl.Seconds())\<close>\<close>

text \<open>
  \<^verbatim>\<open>Duration.Seconds\<close> is \<^verbatim>\<open>float64(d / Second) + float64(d % Second) / 1e9\<close>. A float64 that
  is not zero has a 53-bit significand: \<open>float64_round\<close> rounds a rational to the nearest
  multiple of \<open>2\<^sup>e\<^sup>-\<^sup>5\<^sup>2\<close>, for the \<open>e\<close> with \<open>2\<^sup>e \<le> |x| < 2\<^sup>e\<^sup>+\<^sup>1\<close> (\<open>ilog2\<close>, from the
  number of bits of the integer part, or of the integer part of the inverse below 1),
  ties to the even significand (the exponent range is not modelled: the values here lie between
  \<open>10\<^sup>-\<^sup>9\<close> and \<open>10\<^sup>1\<^sup>0\<close>). The two integer-to-float conversions are exact (both
  integers are below \<open>2\<^sup>5\<^sup>3\<close>); the division and the addition each round once. Go's
  \<^verbatim>\<open>/\<close> and \<^verbatim>\<open>%\<close> on integers and its float-to-integer conversion truncate toward zero.
\<close>

definition ilog2 :: "rat \<Rightarrow> int" where
  "ilog2 x = (if 1 \<le> x then bitlen \<lfloor>x\<rfloor> - 1 else - bitlen (\<lceil>1 / x\<rceil> - 1))"

definition round_half_even :: "rat \<Rightarrow> int" where
  "round_half_even x =
     (let f = \<lfloor>x\<rfloor>; d = x - of_int f
      in if d < 1 / 2 then f else if 1 / 2 < d then f + 1 else if even f then f else f + 1)"

definition float64_round :: "rat \<Rightarrow> rat" where
  "float64_round x =
     (if x = 0 then 0
      else if x < 0
      then - (of_int (round_half_even (- x / 2 powi (ilog2 (- x) - 52))) * 2 powi (ilog2 (- x) - 52))
      else of_int (round_half_even (x / 2 powi (ilog2 x - 52))) * 2 powi (ilog2 x - 52))"

definition Duration_Seconds :: "int64 \<Rightarrow> rat" where
  "Duration_Seconds d =
     (let sec = sint d sdiv 1000000000;
          nsec = sint d smod 1000000000
      in float64_round (of_int sec + float64_round (of_int nsec / 1000000000)))"

definition int64_of_float :: "rat \<Rightarrow> int64" where
  "int64_of_float x = word_of_int (if 0 \<le> x then \<lfloor>x\<rfloor> else \<lceil>x\<rceil>)"

text \<open>The three export modes each compute \<^verbatim>\<open>ttlSeconds\<close> with the same four lines.\<close>

definition ttlSeconds_of :: "int64 \<Rightarrow> int64" where
  "ttlSeconds_of ttl = (if 0 < sint ttl then int64_of_float (Duration_Seconds ttl) else - 1)"

subsection \<open>Closing\<close>

definition RedisExporter_Close ::
  "env \<Rightarrow> RedisExporter \<Rightarrow> world \<Rightarrow> error option \<times> RedisExporter \<times> world" where
  "RedisExporter_Close env re w =
     (case Close env (fileManager re) w of
        (e, fm1, w1) \<Rightarrow>
          if is_panic e then (e, re\<lparr>fileManager := fm1\<rparr>, w1)
          else (let w2 = (case e of
                            Some err \<Rightarrow> log_Printf (''Error closing file manager: '' @ message err) w1
                          | None \<Rightarrow> w1)
                in case client_Close env w2 of (ce, w3) \<Rightarrow> (ce, re\<lparr>fileManager := fm1\<rparr>, w3)))"

text \<open>\<^verbatim>\<open>defer func() { _ = re.Close() }()\<close>: the exporter is closed when the mode returns and
  the result of closing is dropped (a panic is not).\<close>

definition deferred_Close ::
  "env \<Rightarrow> error option \<times> RedisExporter \<times> world \<Rightarrow> error option \<times> RedisExporter \<times> world" where
  "deferred_Close env r =
     (case r of
        (err, re, w) \<Rightarrow>
          (case RedisExporter_Close env re w of
             (ce, re1, w1) \<Rightarrow> if is_panic ce \<and> \<not> is_panic err then (ce, re1, w1) else (err, re1, w1)))"

subsection \<open>Keys-only export\<close>

definition estimateKeySize :: "string \<Rightarrow> string \<Rightarrow> int64" where
  "estimateKeySize key keyType =
     (if keyType = ''string'' then of_nat (length key)
      else if keyType = ''set'' \<or> keyType = ''list'' \<or> keyType = ''hash'' \<or> keyType = ''zset''
      then of_nat (length key * 10)
      else of_nat (length key))"

definition RFC3339 :: string where
  "RFC3339 = ''2006-01-02T15:04:05Z07:00''"

definition flushAll :: "env \<Rightarrow> RedisExporter \<Rightarrow> world \<Rightarrow> RedisExporter \<times> world" where
  "flushAll env re w =
     (case FlushAll env (fileManager re) w of (fm1, w1) \<Rightarrow> (re\<lparr>fileManager := fm1\<rparr>, w1))"

text \<open>
  The loop over the keys of one batch in \<^verbatim>\<open>ExportKeysOnly\<close>; \<open>count\<close> is the running number
  of keys exported. An error of the sink is logged and the loop goes on to the next key.
  Only a panic ends the loop early.
\<close>

fun keysOnly_keys ::
  "env \<Rightarrow> (string \<Rightarrow> string + string) \<Rightarrow> (string \<Rightarrow> string + int64) \<Rightarrow> string \<Rightarrow> string list \<Rightarrow>
     FileManager \<Rightarrow> goint \<Rightarrow> world \<Rightarrow> error option \<times> FileManager \<times> goint \<times> world" where
  "keysOnly_keys env keyTypes keyTTLs timestamp [] fm count w = (None, fm, count, w)"
| "keysOnly_keys env keyTypes keyTTLs timestamp (key # keys) fm count w =
     (case keyTypes key of
        Inl e \<Rightarrow>
          keysOnly_keys env keyTypes keyTTLs timestamp keys fm count
            (log_Printf (''Error getting type for key '' @ key @ '': '' @ e) w)
      | Inr keyType \<Rightarrow>
          (case keyTTLs key of
             Inl e \<Rightarrow>
               keysOnly_keys env keyTypes keyTTLs timestamp keys fm count
                 (log_Printf (''Error getting TTL for key '' @ key @ '': '' @ e) w)
           | Inr ttl \<Rightarrow>
               (let ttlSeconds = ttlSeconds_of ttl;
                    sizeEstimate = estimateKeySize key keyType;
                    record = \<lparr>Key = key, Type = keyType,
                              Value = ''size_estimate='' @ FormatInt (sint sizeEstimate),
                              TTLSeconds = ttlSeconds, ExportedAt = timestamp\<rparr>
                in case WriteRecord env fm record w of
                     (Some e, fm1, w1) \<Rightarrow>
                       if is_panic (Some e) then (Some e, fm1, count, w1)
                       else keysOnly_keys env keyTypes keyTTLs timestamp keys fm1 count
                              (log_Printf (''Error writing key '' @ key @ '': '' @ message e) w1)
                   | (None, fm1, w1) \<Rightarrow>
                       keysOnly_keys env keyTypes keyTTLs timestamp keys fm1 (count + 1) w1)))"

text \<open>The same loop in \<^verbatim>\<open>ExportKeysOnlyByPattern\<close>: nothing is logged, the result of
  \<^verbatim>\<open>WriteRecord\<close> is assigned to \<^verbatim>\<open>_\<close> and the key is counted whatever it was.\<close>

fun keysOnlyByPattern_keys ::
  "env \<Rightarrow> (string \<Rightarrow> string + string) \<Rightarrow> (string \<Rightarrow> string + int64) \<Rightarrow> string \<Rightarrow> string list \<Rightarrow>
     FileManager \<Rightarrow> goint \<Rightarrow> world \<Rightarrow> error option \<times> FileManager \<times> goint \<times> world" where
  "keysOnlyByPattern_keys env keyTypes keyTTLs timestamp [] fm count w = (None, fm, count, w)"
| "keysOnlyByPattern_keys env keyTypes keyTTLs timestamp (key # keys) fm count w =
     (case keyTypes key of
        Inl e \<Rightarrow> keysOnlyByPattern_keys env keyTypes keyTTLs timestamp keys fm count w
      | Inr keyType \<Rightarrow>
          (case keyTTLs key of
             Inl e \<Rightarrow> keysOnlyByPattern_keys env keyTypes keyTTLs timestamp keys fm count w
           | Inr ttl \<Rightarrow>
               (let ttlSeconds = ttlSeconds_of ttl;
                    sizeEstimate = estimateKeySize key keyType;
                    record = \<lparr>Key = key, Type = keyType,
                              Value = ''size_estimate='' @ FormatInt (sint sizeEstimate),
                              TTLSeconds = ttlSeconds, ExportedAt = timestamp\<rparr>
                in case WriteRecord env fm record w of
                     (e, fm1, w1) \<Rightarrow>
                       if is_panic e then (e, fm1, count, w1)
                       else keysOnlyByPattern_keys env keyTypes keyTTLs timestamp keys fm1 (count + 1) w1)))"

text \<open>\<^verbatim>\<open>if count%re.flushInterval == 0 { Printf; flushAll }\<close>; the remainder by zero panics.\<close>

definition flush_periodically ::
  "env \<Rightarrow> RedisExporter \<Rightarrow> goint \<Rightarrow> world \<Rightarrow> error option \<times> RedisExporter \<times> world" where
  "flush_periodically env re count w =
     (if flushInterval re = 0 then (Some (Panic ''integer divide by zero''), re, w)
      else if sint count smod sint (flushInterval re) = 0
      then (case flushAll env re (fmt_Print (''Exported '' @ FormatInt (sint count) @ '' keys...'') w) of
              (re1, w1) \<Rightarrow> (None, re1, w1))
      else (None, re, w))"

text \<open>
  The scan loops may never see the cursor come back to 0, so they take fuel: \<open>None\<close> is
  a loop that has not returned within it. A failed pipeline is logged and the loop goes
  on with the next scan (\<^verbatim>\<open>continue\<close>), before the cursor is tested.
\<close>

fun ExportKeysOnly_loop ::
  "nat \<Rightarrow> env \<Rightarrow> RedisExporter \<Rightarrow> 64 word \<Rightarrow> goint \<Rightarrow> world \<Rightarrow>
     (error option \<times> RedisExporter \<times> goint \<times> world) option" where
  "ExportKeysOnly_loop 0 env re cursor count w = None"
| "ExportKeysOnly_loop (Suc n) env re cursor count w =
     (case client_Scan env cursor ''*'' (batchSize re) w of
        (Inl e, w1) \<Rightarrow> Some (Some (Errorf ''failed to scan keys: '' e), re, count, w1)
      | (Inr (keys, cursor1), w1) \<Rightarrow>
          (case client_PipeExec env keys w1 of
             (Some e, keyTypes, keyTTLs, w2) \<Rightarrow>
               ExportKeysOnly_loop n env re cursor1 count (log_Printf (''Pipeline error: '' @ e) w2)
           | (None, keyTypes, keyTTLs, w2) \<Rightarrow>
               (let (now, w3) = time_Now env w2;
                    timestamp = time_Format env ''UTC'' RFC3339 now
                in case keysOnly_keys env keyTypes keyTTLs timestamp keys (fileManager re) count w3 of
                     (Some e, fm1, count1, w4) \<Rightarrow> Some (Some e, re\<lparr>fileManager := fm1\<rparr>, count1, w4)
                   | (None, fm1, count1, w4) \<Rightarrow>
                       (case flush_periodically env (re\<lparr>fileManager := fm1\<rparr>) count1 w4 of
                          (Some e, re1, w5) \<Rightarrow> Some (Some e, re1, count1, w5)
                        | (None, re1, w5) \<Rightarrow>
                            if cursor1 = 0 then Some (None, re1, count1, w5)
                            else ExportKeysOnly_loop n env re1 cursor1 count1 w5))))"

definition ExportKeysOnly ::
  "nat \<Rightarrow> env \<Rightarrow> RedisExporter \<Rightarrow> world \<Rightarrow> (error option \<times> RedisExporter \<times> world) option" where
  "ExportKeysOnly fuel env re w =
     (case ExportKeysOnly_loop fuel env re 0 0
             (fmt_Print ''Starting Redis key metadata export (keys only)...'' w) of
        None \<Rightarrow> None
      | Some (Some e, re1, count, w1) \<Rightarrow> Some (deferred_Close env (Some e, re1, w1))
      | Some (None, re1, count, w1) \<Rightarrow>
          Some (deferred_Close env
            (None, re1,
             fmt_Print (''Key export completed! Total keys exported: '' @ FormatInt (sint count)) w1)))"

fun ExportKeysOnlyByPattern_loop ::
  "nat \<Rightarrow> env \<Rightarrow> RedisExporter \<Rightarrow> string \<Rightarrow> 64 word \<Rightarrow> goint \<Rightarrow> world \<Rightarrow>
     (error option \<times> RedisExporter \<times> goint \<times> world) option" where
  "ExportKeysOnlyByPattern_loop 0 env re pattern cursor count w = None"
| "ExportKeysOnlyByPattern_loop (Suc n) env re pattern cursor count w =
     (case client_Scan env cursor pattern (batchSize re) w of
        (Inl e, w1) \<Rightarrow> Some (Some (Errorf ''failed to scan keys: '' e), re, count, w1)
      | (Inr (keys, cursor1), w1) \<Rightarrow>
          (case client_PipeExec env keys w1 of
             (Some e, keyTypes, keyTTLs, w2) \<Rightarrow>
               ExportKeysOnlyByPattern_loop n env re pattern cursor1 count
                 (log_Printf (''Pipeline error: '' @ e) w2)
           | (None, keyTypes, keyTTLs, w2) \<Rightarrow>
               (let (now, w3) = time_Now env w2;
                    timestamp = time_Format env ''UTC'' RFC3339 now
                in case keysOnlyByPattern_keys env keyTypes keyTTLs timestamp keys (fileManager re) count w3 of
                     (Some e, fm1, count1, w4) \<Rightarrow> Some (Some e, re\<lparr>fileManager := fm1\<rparr>, count1, w4)
                   | (None, fm1, count1, w4) \<Rightarrow>
                       (case flush_periodically env (re\<lparr>fileManager := fm1\<rparr>) count1 w4 of
                          (Some e, re1, w5) \<Rightarrow> Some (Some e, re1, count1, w5)
                        | (None, re1, w5) \<Rightarrow>
                            if cursor1 = 0 then Some (None, re1, count1, w5)
                            else ExportKeysOnlyByPattern_loop n env re1 pattern cursor1 count1 w5))))"

definition ExportKeysOnlyByPattern ::
  "nat \<Rightarrow> env \<Rightarrow> RedisExporter \<Rightarrow> string \<Rightarrow> world \<Rightarrow> (error option \<times> RedisExporter \<times> world) option" where
  "ExportKeysOnlyByPattern fuel env re pattern w =
     (case ExportKeysOnlyByPattern_loop fuel env re pattern 0 0
             (fmt_Print (''Starting Redis key metadata export with pattern: '' @ pattern) w) of
        None \<Rightarrow> None
      | Some (Some e, re1, count, w1) \<Rightarrow> Some (deferred_Close env (Some e, re1, w1))
      | Some (None, re1, count, w1) \<Rightarrow>
          Some (deferred_Close env
            (None, re1,
             fmt_Print (''Export completed! Total keys exported: '' @ FormatInt (sint count)) w1)))"

subsection \<open>Full-data export\<close>

text \<open>
  The loops of \<^verbatim>\<open>exportKeyData\<close> over one reply; each carries \<^verbatim>\<open>totalSize\<close>, and stops
  at the first error of the sink. The index loops over a reply of alternating entries
  (\<^verbatim>\<open>for i := 0; i < len(fields); i += 2\<close>, body guarded by \<^verbatim>\<open>i+1 < len(fields)\<close>) take the
  entries two at a time and skip an unpaired last one.
\<close>

fun set_members ::
  "env \<Rightarrow> string \<Rightarrow> string \<Rightarrow> string list \<Rightarrow> FileManager \<Rightarrow> int64 \<Rightarrow> world \<Rightarrow>
     error option \<times> FileManager \<times> int64 \<times> world" where
  "set_members env key timestamp [] fm totalSize w = (None, fm, totalSize, w)"
| "set_members env key timestamp (member # members) fm totalSize w =
     (let record = \<lparr>Key = key @ '':member:'' @ member, Type = ''set_member'', Value = member,
                    TTLSeconds = - 1, ExportedAt = timestamp\<rparr>
      in case WriteRecord env fm record w of
           (Some e, fm1, w1) \<Rightarrow> (Some e, fm1, totalSize, w1)
         | (None, fm1, w1) \<Rightarrow>
             set_members env key timestamp members fm1 (totalSize + of_nat (length member)) w1)"

fun hash_fields ::
  "env \<Rightarrow> string \<Rightarrow> string \<Rightarrow> string list \<Rightarrow> FileManager \<Rightarrow> int64 \<Rightarrow> world \<Rightarrow>
     error option \<times> FileManager \<times> int64 \<times> world" where
  "hash_fields env key timestamp (field # val # flds) fm totalSize w =
     (let record = \<lparr>Key = key @ '':field:'' @ field, Type = ''hash_field'', Value = val,
                    TTLSeconds = - 1, ExportedAt = timestamp\<rparr>
      in case WriteRecord env fm record w of
           (Some e, fm1, w1) \<Rightarrow> (Some e, fm1, totalSize, w1)
         | (None, fm1, w1) \<Rightarrow>
             hash_fields env key timestamp flds fm1
               (totalSize + of_nat (length field + length val)) w1)"
| "hash_fields env key timestamp flds fm totalSize w = (None, fm, totalSize, w)"

fun zset_members ::
  "env \<Rightarrow> string \<Rightarrow> string \<Rightarrow> string list \<Rightarrow> FileManager \<Rightarrow> int64 \<Rightarrow> goint \<Rightarrow> world \<Rightarrow>
     error option \<times> FileManager \<times> int64 \<times> goint \<times> world" where
  "zset_members env key timestamp (member # scoreStr # members) fm totalSize rank w =
     (let record = \<lparr>Key = key @ '':member:'' @ member, Type = ''zset_member'',
                    Value = ''score='' @ scoreStr @ '',rank='' @ FormatInt (sint rank),
                    TTLSeconds = - 1, ExportedAt = timestamp\<rparr>
      in case WriteRecord env fm record w of
           (Some e, fm1, w1) \<Rightarrow> (Some e, fm1, totalSize, rank, w1)
         | (None, fm1, w1) \<Rightarrow>
             zset_members env key timestamp members fm1 (totalSize + of_nat (length member))
               (rank + 1) w1)"
| "zset_members env key timestamp members fm totalSize rank w = (None, fm, totalSize, rank, w)"

fun list_items ::
  "env \<Rightarrow> string \<Rightarrow> string \<Rightarrow> int64 \<Rightarrow> nat \<Rightarrow> string list \<Rightarrow> FileManager \<Rightarrow> int64 \<Rightarrow> world \<Rightarrow>
     error option \<times> FileManager \<times> int64 \<times> world" where
  "list_items env key timestamp start i [] fm totalSize w = (None, fm, totalSize, w)"
| "list_items env key timestamp start i (v # vs) fm totalSize w =
     (let record = \<lparr>Key = key @ '':index:'' @ FormatInt (sint (start + of_nat i)),
                    Type = ''list_item'', Value = v, TTLSeconds = - 1, ExportedAt = timestamp\<rparr>
      in case WriteRecord env fm record w of
           (Some e, fm1, w1) \<Rightarrow> (Some e, fm1, totalSize, w1)
         | (None, fm1, w1) \<Rightarrow>
             list_items env key timestamp start (Suc i) vs fm1 (totalSize + of_nat (length v)) w1)"

text \<open>The sub-scan loops, with fuel; every error path returns size 0 with the error.\<close>

fun sscan_loop ::
  "nat \<Rightarrow> env \<Rightarrow> string \<Rightarrow> string \<Rightarrow> 64 word \<Rightarrow> FileManager \<Rightarrow> int64 \<Rightarrow> world \<Rightarrow>
     (int64 \<times> error option \<times> FileManager \<times> world) option" where
  "sscan_loop 0 env key timestamp cursor fm totalSize w = None"
| "sscan_loop (Suc n) env key timestamp cursor fm totalSize w =
     (case client_SScan env key cursor w of
        (Inl e, w1) \<Rightarrow> Some (0, Some e, fm, w1)
      | (Inr (members, nextCursor), w1) \<Rightarrow>
          (case set_members env key timestamp members fm totalSize w1 of
             (Some e, fm1, totalSize1, w2) \<Rightarrow> Some (0, Some e, fm1, w2)
           | (None, fm1, totalSize1, w2) \<Rightarrow>
               if nextCursor = 0 then Some (totalSize1, None, fm1, w2)
               else sscan_loop n env key timestamp nextCursor fm1 totalSize1 w2))"

fun hscan_loop ::
  "nat \<Rightarrow> env \<Rightarrow> string \<Rightarrow> string \<Rightarrow> 64 word \<Rightarrow> FileManager \<Rightarrow> int64 \<Rightarrow> world \<Rightarrow>
     (int64 \<times> error option \<times> FileManager \<times> world) option" where
  "hscan_loop 0 env key timestamp cursor fm totalSize w = None"
| "hscan_loop (Suc n) env key timestamp cursor fm totalSize w =
     (case client_HScan env key cursor w of
        (Inl e, w1) \<Rightarrow> Some (0, Some e, fm, w1)
      | (Inr (flds, nextCursor), w1) \<Rightarrow>
          (case hash_fields env key timestamp flds fm totalSize w1 of
             (Some e, fm1, totalSize1, w2) \<Rightarrow> Some (0, Some e, fm1, w2)
           | (None, fm1, totalSize1, w2) \<Rightarrow>
               if nextCursor = 0 then Some (totalSize1, None, fm1, w2)
               else hscan_loop n env key timestamp nextCursor fm1 totalSize1 w2))"

fun zscan_loop ::
  "nat \<Rightarrow> env \<Rightarrow> string \<Rightarrow> string \<Rightarrow> 64 word \<Rightarrow> FileManager \<Rightarrow> int64 \<Rightarrow> goint \<Rightarrow> world \<Rightarrow>
     (int64 \<times> error option \<times> FileManager \<times> world) option" where
  "zscan_loop 0 env key timestamp cursor fm totalSize rank w = None"
| "zscan_loop (Suc n) env key timestamp cursor fm totalSize rank w =
     (case client_ZScan env key cursor w of
        (Inl e, w1) \<Rightarrow> Some (0, Some e, fm, w1)
      | (Inr (members, nextCursor), w1) \<Rightarrow>
          (case zset_members env key timestamp members fm totalSize rank w1 of
             (Some e, fm1, totalSize1, rank1, w2) \<Rightarrow> Some (0, Some e, fm1, w2)
           | (None, fm1, totalSize1, rank1, w2) \<Rightarrow>
               if nextCursor = 0 then Some (totalSize1, None, fm1, w2)
               else zscan_loop n env key timestamp nextCursor fm1 totalSize1 rank1 w2))"

text \<open>\<^verbatim>\<open>for start := int64(0); start < length; start += chunkSize\<close>, with \<^verbatim>\<open>chunkSize = 1000\<close>.\<close>

fun lrange_loop ::
  "nat \<Rightarrow> env \<Rightarrow> string \<Rightarrow> string \<Rightarrow> int64 \<Rightarrow> int64 \<Rightarrow> FileManager \<Rightarrow> int64 \<Rightarrow> world \<Rightarrow>
     (int64 \<times> error option \<times> FileManager \<times> world) option" where
  "lrange_loop 0 env key timestamp len start fm totalSize w = None"
| "lrange_loop (Suc n) env key timestamp len start fm totalSize w =
     (if \<not> sint start < sint len then Some (totalSize, None, fm, w)
      else (let end0 = start + 1000 - 1;
                end1 = (if sint len \<le> sint end0 then len - 1 else end0)
            in case client_LRange env key start end1 w of
                 (Inl e, w1) \<Rightarrow> Some (0, Some e, fm, w1)
               | (Inr vals, w1) \<Rightarrow>
                   (case list_items env key timestamp start 0 vals fm totalSize w1 of
                      (Some e, fm1, totalSize1, w2) \<Rightarrow> Some (0, Some e, fm1, w2)
                    | (None, fm1, totalSize1, w2) \<Rightarrow>
                        lrange_loop n env key timestamp len (start + 1000) fm1 totalSize1 w2)))"

definition exportKeyData ::
  "nat \<Rightarrow> env \<Rightarrow> FileManager \<Rightarrow> string \<Rightarrow> string \<Rightarrow> world \<Rightarrow>
     (int64 \<times> error option \<times> FileManager \<times> world) option" where
  "exportKeyData fuel env fm key keyType w =
     (let (now, w0) = time_Now env w;
          timestamp = time_Format env ''UTC'' RFC3339 now
      in if keyType = ''string''
         then (case client_Get env key w0 of
                 (Inl e, w1) \<Rightarrow> Some (0, Some e, fm, w1)
               | (Inr val, w1) \<Rightarrow> Some (of_nat (length val), None, fm, w1))
         else if keyType = ''set'' then sscan_loop fuel env key timestamp 0 fm 0 w0
         else if keyType = ''hash'' then hscan_loop fuel env key timestamp 0 fm 0 w0
         else if keyType = ''zset'' then zscan_loop fuel env key timestamp 0 fm 0 0 w0
         else if keyType = ''list''
         then (case client_LLen env key w0 of
                 (Inl e, w1) \<Rightarrow> Some (0, Some e, fm, w1)
               | (Inr len, w1) \<Rightarrow> lrange_loop fuel env key timestamp len 0 fm 0 w1)
         else Some (0, None, fm, w0))"

definition exportKey ::
  "nat \<Rightarrow> env \<Rightarrow> RedisExporter \<Rightarrow> string \<Rightarrow> world \<Rightarrow> (error option \<times> RedisExporter \<times> world) option" where
  "exportKey fuel env re key w =
     (case client_Type env key w of
        (Inl e, w1) \<Rightarrow> Some (Some (Errorf (''failed to get type for key '' @ key @ '': '') e), re, w1)
      | (Inr keyType, w1) \<Rightarrow>
          (case client_TTL env key w1 of
             (Inl e, w2) \<Rightarrow> Some (Some (Errorf (''failed to get TTL for key '' @ key @ '': '') e), re, w2)
           | (Inr ttl, w2) \<Rightarrow>
               (let ttlSeconds = ttlSeconds_of ttl
                in case exportKeyData fuel env (fileManager re) key keyType w2 of
                     None \<Rightarrow> None
                   | Some (sz, Some e, fm1, w3) \<Rightarrow>
                       Some (Some (Errorf (''failed to export data for key '' @ key @ '': '') e),
                             re\<lparr>fileManager := fm1\<rparr>, w3)
                   | Some (sz, None, fm1, w3) \<Rightarrow>
                       (let (now, w4) = time_Now env w3;
                            timestamp = time_Format env ''UTC'' RFC3339 now;
                            keyRecord = \<lparr>Key = key, Type = keyType,
                                         Value = ''size='' @ FormatInt (sint sz),
                                         TTLSeconds = ttlSeconds, ExportedAt = timestamp\<rparr>
                        in case WriteRecord env fm1 keyRecord w4 of
                             (e, fm2, w5) \<Rightarrow> Some (e, re\<lparr>fileManager := fm2\<rparr>, w5)))))"

text \<open>
  The loop over the keys of one batch in \<^verbatim>\<open>ExportByPattern\<close>: an error of \<^verbatim>\<open>exportKey\<close> is
  logged and the loop goes on to the next key; every hundredth exported key is announced
  and the writer flushed.
\<close>

fun byPattern_keys ::
  "nat \<Rightarrow> env \<Rightarrow> string list \<Rightarrow> RedisExporter \<Rightarrow> goint \<Rightarrow> world \<Rightarrow>
     (error option \<times> RedisExporter \<times> goint \<times> world) option" where
  "byPattern_keys fuel env [] re count w = Some (None, re, count, w)"
| "byPattern_keys fuel env (key # keys) re count w =
     (case exportKey fuel env re key w of
        None \<Rightarrow> None
      | Some (Some e, re1, w1) \<Rightarrow>
          if is_panic (Some e) then Some (Some e, re1, count, w1)
          else byPattern_keys fuel env keys re1 count
                 (log_Printf (''Error exporting key '' @ key @ '': '' @ message e) w1)
      | Some (None, re1, w1) \<Rightarrow>
          (let count1 = count + 1
           in case (if sint count1 smod 100 = 0
                    then flushAll env re1
                           (fmt_Print (''Exported '' @ FormatInt (sint count1) @ '' keys...'') w1)
                    else (re1, w1)) of
                (re2, w2) \<Rightarrow> byPattern_keys fuel env keys re2 count1 w2))"

fun ExportByPattern_loop ::
  "nat \<Rightarrow> env \<Rightarrow> RedisExporter \<Rightarrow> string \<Rightarrow> 64 word \<Rightarrow> goint \<Rightarrow> world \<Rightarrow>
     (error option \<times> RedisExporter \<times> goint \<times> world) option" where
  "ExportByPattern_loop 0 env re pattern cursor count w = None"
| "ExportByPattern_loop (Suc n) env re pattern cursor count w =
     (case client_Scan env cursor pattern (batchSize re) w of
        (Inl e, w1) \<Rightarrow> Some (Some (Errorf ''failed to scan keys: '' e), re, count, w1)
      | (Inr (keys, cursor1), w1) \<Rightarrow>
          (case byPattern_keys (Suc n) env keys re count w1 of
             None \<Rightarrow> None
           | Some (Some e, re1, count1, w2) \<Rightarrow> Some (Some e, re1, count1, w2)
           | Some (None, re1, count1, w2) \<Rightarrow>
               if cursor1 = 0 then Some (None, re1, count1, w2)
               else ExportByPattern_loop n env re1 pattern cursor1 count1 w2))"

definition ExportByPattern ::
  "nat \<Rightarrow> env \<Rightarrow> RedisExporter \<Rightarrow> string \<Rightarrow> world \<Rightarrow> (error option \<times> RedisExporter \<times> world) option" where
  "ExportByPattern fuel env re pattern w =
     (let re0 = re\<lparr>fileManager := SetMetadata (fileManager re) pattern 0\<rparr>
      in case ExportByPattern_loop fuel env re0 pattern 0 0
                (fmt_Print (''Starting full data export with pattern: '' @ pattern) w) of
           None \<Rightarrow> None
         | Some (Some e, re1, count, w1) \<Rightarrow> Some (deferred_Close env (Some e, re1, w1))
         | Some (None, re1, count, w1) \<Rightarrow>
             (let re2 = re1\<lparr>fileManager := SetMetadata (fileManager re1) pattern count\<rparr>;
                  fmt = Format (config (fileManager re2));
                  queryPath = GetQueryPath env (fileManager re2);
                  w2 = fmt_Print (''Export completed! Total keys exported with full data: ''
                                    @ FormatInt (sint count)) w1;
                  w3 = fmt_Print (''Files created with '' @ fmt @ '' format'') w2;
                  w4 = fmt_Print ''Using Hive-style partitioning for optimal DuckDB querying'' w3;
                  w5 = fmt_Print (''DuckDB query: SELECT * FROM read_'' @ fmt @ ''('' @ [CHR 0x27]
                                    @ queryPath @ [CHR 0x27] @ '');'') w4;
                  w6 = fmt_Print (''Example filter: SELECT * FROM read_'' @ fmt @ ''('' @ [CHR 0x27]
                                    @ queryPath @ [CHR 0x27] @ '') WHERE type = '' @ [CHR 0x27]
                                    @ ''string'' @ [CHR 0x27] @ '';'') w5
              in Some (deferred_Close env (None, re2, w6))))"

section \<open>Runs of the sink and what is counted in them\<close>

text \<open>A sequence of \<^verbatim>\<open>WriteRecord\<close> calls on one FileManager, stopping at the first error.\<close>

fun WriteRecords ::
  "env \<Rightarrow> FileManager \<Rightarrow> RedisRecord list \<Rightarrow> world \<Rightarrow> error option \<times> FileManager \<times> world" where
  "WriteRecords env fm [] w = (None, fm, w)"
| "WriteRecords env fm (r # rs) w =
     (case WriteRecord env fm r w of
        (Some e, fm1, w1) \<Rightarrow> (Some e, fm1, w1)
      | (None, fm1, w1) \<Rightarrow> WriteRecords env fm1 rs w1)"

text \<open>A run of the sink: a new FileManager, then the records written in order.\<close>

definition run_sink ::
  "env \<Rightarrow> StorageConfig \<Rightarrow> RedisRecord list \<Rightarrow> world \<Rightarrow> error option \<times> FileManager \<times> world" where
  "run_sink env cfg rs w0 =
     (case NewFileManager env cfg w0 of (fm0, w1) \<Rightarrow> WriteRecords env fm0 rs w1)"

text \<open>
  A partition is open while a writer is; the completed partitions are the entries of the
  metadata. \<open>record_counts\<close> lists their \<^verbatim>\<open>record_count\<close> fields.
\<close>

definition writer_open :: "FileManager \<Rightarrow> bool" where
  "writer_open fm \<longleftrightarrow> csvWriter fm \<noteq> None \<or> db fm \<noteq> None"

definition partition_count :: "FileManager \<Rightarrow> nat" where
  "partition_count fm = length (Partitions (metadata fm)) + (if writer_open fm then 1 else 0)"

definition record_counts :: "ExportMetadata \<Rightarrow> int list" where
  "record_counts md = map (\<lambda>p. sint (RecordCount p)) (Partitions md)"

text \<open>The first step of \<^verbatim>\<open>Close\<close>, \<^verbatim>\<open>if fm.recordCount > 0 { fm.RotateWriter() }\<close>, on its
  own, with the error \<^verbatim>\<open>Close\<close> only prints.\<close>

definition final_rotation ::
  "env \<Rightarrow> FileManager \<Rightarrow> world \<Rightarrow> error option \<times> FileManager \<times> world" where
  "final_rotation env fm w =
     (if 0 < sint (recordCount fm) then RotateWriter env fm w else (None, fm, w))"

text \<open>The \<^verbatim>\<open>record_count\<close> fields read back from a metadata file.\<close>

fun written_counts :: "file_data option \<Rightarrow> int list option" where
  "written_counts (Some (JsonData md)) = Some (record_counts md)"
| "written_counts other = None"

text \<open>
  What holds of a FileManager between two calls of a run: the counter is within its bounds,
  the handles are those of the configured format, and counted records have an open file or
  connection to rotate.
\<close>

definition consistent :: "FileManager \<Rightarrow> bool" where
  "consistent fm \<longleftrightarrow>
     0 \<le> sint (recordCount fm) \<and> sint (recordCount fm) \<le> max 1 (sint (MaxRecords (config fm))) \<and>
     (if Format (config fm) = FormatCSV
      then db fm = None \<and> (csvWriter fm = None \<longleftrightarrow> csvFile fm = None) \<and>
           (recordCount fm \<noteq> 0 \<longrightarrow> csvFile fm \<noteq> None)
      else csvWriter fm = None \<and>
           (recordCount fm \<noteq> 0 \<longrightarrow> db fm \<noteq> None \<and> Format (config fm) = FormatParquet))"

text \<open>With a maximum of at least one: every completed partition is full, and a writer is
  open exactly when the open partition holds a record.\<close>

definition filled :: "FileManager \<Rightarrow> bool" where
  "filled fm \<longleftrightarrow>
     (writer_open fm \<longleftrightarrow> recordCount fm \<noteq> 0) \<and>
     (\<forall>c \<in> set (record_counts (metadata fm)). c = sint (MaxRecords (config fm)))"

text \<open>The Parquet file that rotating the open partition writes.\<close>

definition parquet_path :: "env \<Rightarrow> FileManager \<Rightarrow> string" where
  "parquet_path env fm =
     filepath_Join env [currentPartitionPath fm,
       ''redis_data_part_'' @ Sprintf_04d (sint (partitionID fm)) @ ''.parquet'']"

text \<open>The files that rotating the open partition writes to: the CSV file behind the open
  writer, into which the buffered rows are flushed, and the Parquet file the table is exported
  to.\<close>

definition open_partition_files :: "env \<Rightarrow> FileManager \<Rightarrow> string list" where
  "open_partition_files env fm =
     (case csvWriter fm of None \<Rightarrow> [] | Some writer \<Rightarrow> [cw_path writer]) @ [parquet_path env fm]"

text \<open>The errors an export mode can return: a failed key scan, or a panic.\<close>

definition scan_or_panic :: "error \<Rightarrow> bool" where
  "scan_or_panic e \<longleftrightarrow> is_panic (Some e) \<or> (\<exists>m. e = Error (''failed to scan keys: '' @ m))"

section \<open>Concrete environments and inputs\<close>

text \<open>An environment in which no call fails, and an empty world.\<close>

definition env_ok :: env where
  "env_ok = \<lparr>fault = (\<lambda>t. None), spill = (\<lambda>t. False), clock = (\<lambda>t. int t), stat_size = (\<lambda>t. 0),
     time_Format = (\<lambda>zone layout t. layout), path_Clean = (\<lambda>p. p),
     redis_Scan = (\<lambda>t c p n. Inr ([], 0)),
     redis_PipeExec = (\<lambda>t ks. (None, (\<lambda>k. Inr ''string''), (\<lambda>k. Inr (- 1)))),
     redis_Type = (\<lambda>t k. Inr ''string''), redis_TTL = (\<lambda>t k. Inr (- 1)),
     redis_Get = (\<lambda>t k. Inr []), redis_SScan = (\<lambda>t k c. Inr ([], 0)),
     redis_HScan = (\<lambda>t k c. Inr ([], 0)), redis_ZScan = (\<lambda>t k c. Inr ([], 0)),
     redis_LLen = (\<lambda>t k. Inr 0), redis_LRange = (\<lambda>t k a b. Inr []),
     redis_Close = (\<lambda>t. None)\<rparr>"

definition world0 :: world where
  "world0 = \<lparr>tick = 0, dirs = [], files = [], rows_out = [], stdout = [], logged = []\<rparr>"

definition rec_of :: "string \<Rightarrow> RedisRecord" where
  "rec_of k = \<lparr>Key = k, Type = ''string'', Value = ''v'', TTLSeconds = - 1, ExportedAt = ''t''\<rparr>"

definition cfg_csv :: "int64 \<Rightarrow> StorageConfig" where
  "cfg_csv m = \<lparr>OutputDir = ''out'', Format = FormatCSV, MaxRecords = m\<rparr>"

text \<open>A new FileManager for CSV with two records to a partition, the world it is created
  in, and an exporter on it.\<close>

definition fm_new :: FileManager where
  "fm_new = fst (NewFileManager env_ok (cfg_csv 2) world0)"

definition world_new :: world where
  "world_new = snd (NewFileManager env_ok (cfg_csv 2) world0)"

definition exporter_new :: RedisExporter where
  "exporter_new = \<lparr>fileManager = fm_new, batchSize = 10, flushInterval = 1000\<rparr>"

text \<open>A store whose keys are streams; a store whose keys are hashes with the fields
  \<open>a\<close> and \<open>b\<close>; an environment whose disk is full.\<close>

definition env_stream :: env where
  "env_stream = env_ok\<lparr>redis_Type := (\<lambda>t k. Inr ''stream'')\<rparr>"

definition env_hash :: env where
  "env_hash = env_ok\<lparr>redis_Type := (\<lambda>t k. Inr ''hash''),
                      redis_HScan := (\<lambda>t k c. Inr ([''a'', ''1'', ''b'', ''2''], 0))\<rparr>"

definition env_full :: env where
  "env_full = env_ok\<lparr>fault := (\<lambda>t. Some ''disk full'')\<rparr>"

text \<open>A store whose scan fails.\<close>

definition env_scan_fail :: env where
  "env_scan_fail = env_ok\<lparr>redis_Scan := (\<lambda>t c p n. Inl ''connection reset'')\<rparr>"

text \<open>Three records written with two to a partition: the first partition is rotated, the
  second is open.\<close>

definition fm_three :: FileManager where
  "fm_three = fst (snd (run_sink env_ok (cfg_csv 2) [rec_of ''a'', rec_of ''b'', rec_of ''c''] world0))"

definition world_three :: world where
  "world_three = snd (snd (run_sink env_ok (cfg_csv 2) [rec_of ''a'', rec_of ''b'', rec_of ''c''] world0))"

definition exporter_three :: RedisExporter where
  "exporter_three = \<lparr>fileManager = fm_three, batchSize = 10, flushInterval = 1000\<rparr>"

text \<open>After these three records, the call at tick 19 is the \<^verbatim>\<open>Stat\<close> of the final rotation and
  call at tick 25 the \<^verbatim>\<open>Encode\<close> of the metadata.\<close>

definition env_stat_fails :: env where
  "env_stat_fails = env_ok\<lparr>fault := (\<lambda>t. if t = 19 then Some ''stat failed'' else None)\<rparr>"

definition env_metadata_fails :: env where
  "env_metadata_fails = env_ok\<lparr>fault := (\<lambda>t. if t = 25 then Some ''disk full'' else None)\<rparr>"

text \<open>Pipeline replies in which every key is a string without expiry; a store with the keys
  \<open>k1\<close> and \<open>k2\<close> whose disk is full before tick \<open>n\<close>.\<close>

definition all_strings :: "string \<Rightarrow> string + string" where
  "all_strings k = Inr ''string''"

definition no_expiry :: "string \<Rightarrow> string + int64" where
  "no_expiry k = Inr (- 1)"

definition env_disk_recovers :: "nat \<Rightarrow> env" where
  "env_disk_recovers n = env_ok\<lparr>fault := (\<lambda>t. if t < n then Some ''disk full'' else None),
                                 redis_Scan := (\<lambda>t c p n. Inr ([''k1'', ''k2''], 0))\<rparr>"

section \<open>Properties of the FileManager\<close>

lemmas prims = time_Now_def ext_call_def os_MkdirAll_def os_Create_def csv_Write_def csv_Flush_def
  append_lines_def flush_csvWriter_def
  file_Stat_def sql_Open_def db_Copy_def json_Encode_def tick_next_def fmt_Print_def log_Printf_def

lemma initializeWriter_ok:
  assumes "initializeWriter env fm w = (None, fm', w')"
  shows "config fm' = config fm" "recordCount fm' = recordCount fm" "metadata fm' = metadata fm"
    "partitionID fm' = partitionID fm + 1" "rows_out w' = rows_out w"
    "(Format (config fm) = FormatCSV \<and> csvWriter fm' \<noteq> None \<and> csvFile fm' \<noteq> None \<and> db fm' = db fm)
     \<or> (Format (config fm) \<noteq> FormatCSV \<and> Format (config fm) = FormatParquet \<and> db fm' \<noteq> None
         \<and> csvWriter fm' = csvWriter fm \<and> csvFile fm' = csvFile fm)"
  using assms
  by (auto simp: initializeWriter_def initializeCSVWriter_def initializeDuckDBWriter_def prims Let_def
      split: prod.splits option.splits sum.splits if_splits)

lemma RotateWriter_ok:
  assumes "RotateWriter env fm w = (None, fm', w')"
  shows "config fm' = config fm" "partitionID fm' = partitionID fm" "rows_out w' = rows_out w"
   "recordCount fm = 0 \<Longrightarrow> fm' = fm \<and> w' = w"
   "recordCount fm \<noteq> 0 \<Longrightarrow> Format (config fm) = FormatCSV \<Longrightarrow> csvFile fm \<noteq> None \<Longrightarrow>
      (\<exists>info. Partitions (metadata fm') = Partitions (metadata fm) @ [info] \<and> RecordCount info = recordCount fm
         \<and> PartitionID info = partitionID fm)
      \<and> csvFile fm' = None \<and> csvWriter fm' = None \<and> recordCount fm' = 0 \<and> db fm' = db fm"
   "recordCount fm \<noteq> 0 \<Longrightarrow> Format (config fm) = FormatCSV \<Longrightarrow> csvFile fm = None \<Longrightarrow>
      recordCount fm' = 0 \<and> metadata fm' = metadata fm"
   "recordCount fm \<noteq> 0 \<Longrightarrow> Format (config fm) \<noteq> FormatCSV \<Longrightarrow> db fm \<noteq> None \<Longrightarrow>
      (\<exists>info. Partitions (metadata fm') = Partitions (metadata fm) @ [info] \<and> RecordCount info = recordCount fm
         \<and> PartitionID info = partitionID fm)
      \<and> csvFile fm' = csvFile fm \<and> csvWriter fm' = csvWriter fm \<and> recordCount fm' = 0 \<and> db fm' = None"
   "recordCount fm \<noteq> 0 \<Longrightarrow> Format (config fm) \<noteq> FormatCSV \<Longrightarrow> db fm = None \<Longrightarrow> fm' = fm"
  using assms
  by (auto simp: RotateWriter_def rotateCSVWriter_def rotateDuckDBWriter_def prims Let_def
      split: prod.splits option.splits sum.splits if_splits)

lemma write_ok:
  assumes "(if Format (config fm) = FormatCSV then writeCSVRecord env fm r w
            else if Format (config fm) = FormatParquet then writeDuckDBRecord env fm r w
            else (Some (Error (''unsupported format: '' @ Format (config fm))), fm, w)) = (None, fm', w')"
  shows "recordCount fm' = recordCount fm + 1 \<and> config fm' = config fm \<and> metadata fm' = metadata fm
      \<and> partitionID fm' = partitionID fm \<and> db fm' = db fm \<and> csvFile fm' = csvFile fm
      \<and> (csvWriter fm' = None \<longleftrightarrow> csvWriter fm = None)"
    "rows_out w' = rows_out w @ [(r, partitionID fm)]"
    "Format (config fm) = FormatCSV \<or> Format (config fm) = FormatParquet"
    "Format (config fm) = FormatCSV \<Longrightarrow> csvWriter fm \<noteq> None"
    "Format (config fm) \<noteq> FormatCSV \<Longrightarrow> db fm \<noteq> None"
  using assms
  by (auto simp: writeCSVRecord_def writeDuckDBRecord_def prims Let_def
      split: prod.splits option.splits sum.splits if_splits)

lemma sint_succ: "sint (x :: 64 word) < 9223372036854775807 \<Longrightarrow> sint (x + 1) = sint x + 1"
proof -
  assume a: "sint x < 9223372036854775807"
  have lo: "- (2 ^ 63) \<le> sint x" using sint_ge [of x] by simp
  have "signed_take_bit 63 (sint x + 1) = sint x + 1"
    by (rule signed_take_bit_int_eq_self) (use a lo in simp_all)
  then show ?thesis by (simp add: sint_word_add)
qed

lemma sint_M_le: "sint (m :: 64 word) \<le> 9223372036854775807"
  using sint_lt [of m] by simp

lemma WriteRecord_okE:
  assumes "WriteRecord env fm r w = (None, fm', w')"
  obtains fm1 w1 fm3 w3 where
    "if csvWriter fm = None \<and> db fm = None then initializeWriter env fm w = (None, fm1, w1)
     else fm1 = fm \<and> w1 = w"
    "if sint (MaxRecords (config fm1)) \<le> sint (recordCount fm1)
     then \<exists>fm2 w2. RotateWriter env fm1 w1 = (None, fm2, w2) \<and> initializeWriter env fm2 w2 = (None, fm3, w3)
     else fm3 = fm1 \<and> w3 = w1"
    "(if Format (config fm3) = FormatCSV then writeCSVRecord env fm3 r w3
      else if Format (config fm3) = FormatParquet then writeDuckDBRecord env fm3 r w3
      else (Some (Error (''unsupported format: '' @ Format (config fm3))), fm3, w3)) = (None, fm', w')"
  using assms unfolding WriteRecord_def
  by (auto split: prod.splits option.splits if_splits)

lemma init_step:
  assumes i: "initializeWriter env fm w = (None, fm1, w1)" and inv: "consistent fm"
    and z: "recordCount fm = 0"
  shows "consistent fm1 \<and> config fm1 = config fm \<and> metadata fm1 = metadata fm \<and> recordCount fm1 = 0
    \<and> rows_out w1 = rows_out w \<and> writer_open fm1 \<and> partitionID fm1 = partitionID fm + 1"
  using initializeWriter_ok [OF i] inv z
  by (auto simp: consistent_def writer_open_def FormatCSV_def FormatParquet_def split: if_splits)

lemma rotate_step:
  assumes ro: "RotateWriter env fm w = (None, fm2, w2)" and inv: "consistent fm"
  shows "consistent fm2 \<and> config fm2 = config fm \<and> recordCount fm2 = 0 \<and> rows_out w2 = rows_out w
    \<and> partitionID fm2 = partitionID fm
    \<and> (if recordCount fm = 0 then metadata fm2 = metadata fm
        else \<exists>info. Partitions (metadata fm2) = Partitions (metadata fm) @ [info]
               \<and> RecordCount info = recordCount fm \<and> PartitionID info = partitionID fm)"
proof (cases "recordCount fm = 0")
  case True
  with RotateWriter_ok(4) [OF ro] inv show ?thesis by simp
next
  case nz: False
  show ?thesis
  proof (cases "Format (config fm) = FormatCSV")
    case True
    with inv nz have "csvFile fm \<noteq> None" "db fm = None" by (auto simp: consistent_def)
    with RotateWriter_ok(1-3) [OF ro] RotateWriter_ok(5) [OF ro nz True] inv nz True show ?thesis
      by (auto simp: consistent_def)
  next
    case False
    with inv nz have "db fm \<noteq> None" "csvWriter fm = None" by (auto simp: consistent_def)
    with RotateWriter_ok(1-3) [OF ro] RotateWriter_ok(7) [OF ro nz False] inv nz False show ?thesis
      by (auto simp: consistent_def)
  qed
qed

lemma WriteRecord_step:
  assumes ok: "WriteRecord env fm r w = (None, fm', w')" and inv: "consistent fm"
  shows "consistent fm' \<and> config fm' = config fm \<and> writer_open fm' \<and> 0 < sint (recordCount fm')
    \<and> rows_out w' = rows_out w @ [(r, partitionID fm')]
    \<and> sum_list (record_counts (metadata fm')) + sint (recordCount fm')
        = sum_list (record_counts (metadata fm)) + sint (recordCount fm) + 1
    \<and> (if sint (MaxRecords (config fm)) \<le> sint (recordCount fm) \<and> recordCount fm \<noteq> 0
        then recordCount fm' = 1
             \<and> (\<exists>info. Partitions (metadata fm') = Partitions (metadata fm) @ [info]
                    \<and> RecordCount info = recordCount fm \<and> PartitionID info = partitionID fm)
        else Partitions (metadata fm') = Partitions (metadata fm)
             \<and> recordCount fm' = recordCount fm + 1)
    \<and> partitionID fm' = partitionID fm + (if writer_open fm then 0 else 1)
        + (if sint (MaxRecords (config fm)) \<le> sint (recordCount fm) then 1 else 0)"
proof -
  from ok obtain fm1 w1 fm3 w3 where
    s1: "if csvWriter fm = None \<and> db fm = None then initializeWriter env fm w = (None, fm1, w1)
     else fm1 = fm \<and> w1 = w" and
    s2: "if sint (MaxRecords (config fm1)) \<le> sint (recordCount fm1)
     then \<exists>fm2 w2. RotateWriter env fm1 w1 = (None, fm2, w2) \<and> initializeWriter env fm2 w2 = (None, fm3, w3)
     else fm3 = fm1 \<and> w3 = w1" and
    s3: "(if Format (config fm3) = FormatCSV then writeCSVRecord env fm3 r w3
      else if Format (config fm3) = FormatParquet then writeDuckDBRecord env fm3 r w3
      else (Some (Error (''unsupported format: '' @ Format (config fm3))), fm3, w3)) = (None, fm', w')"
    by (rule WriteRecord_okE)
  have c1: "consistent fm1 \<and> config fm1 = config fm \<and> metadata fm1 = metadata fm
    \<and> recordCount fm1 = recordCount fm \<and> rows_out w1 = rows_out w \<and> writer_open fm1
    \<and> (if writer_open fm then partitionID fm1 = partitionID fm
        else recordCount fm = 0 \<and> partitionID fm1 = partitionID fm + 1)"
  proof (cases "csvWriter fm = None \<and> db fm = None")
    case True
    with s1 have i: "initializeWriter env fm w = (None, fm1, w1)" by simp
    from True inv have z: "recordCount fm = 0" by (auto simp: consistent_def split: if_splits)
    from init_step [OF i inv z] True z show ?thesis by (simp add: writer_open_def)
  next
    case False
    with s1 inv show ?thesis by (auto simp: writer_open_def)
  qed
  have c3: "consistent fm3 \<and> config fm3 = config fm \<and> rows_out w3 = rows_out w \<and> writer_open fm3
    \<and> sint (recordCount fm3) < 9223372036854775807
    \<and> (if sint (MaxRecords (config fm)) \<le> sint (recordCount fm) \<and> recordCount fm \<noteq> 0
        then recordCount fm3 = 0
             \<and> (\<exists>info. Partitions (metadata fm3) = Partitions (metadata fm) @ [info]
                    \<and> RecordCount info = recordCount fm \<and> PartitionID info = partitionID fm)
        else Partitions (metadata fm3) = Partitions (metadata fm)
             \<and> recordCount fm3 = recordCount fm)
    \<and> partitionID fm3 = partitionID fm + (if writer_open fm then 0 else 1)
        + (if sint (MaxRecords (config fm)) \<le> sint (recordCount fm) then 1 else 0)"
  proof (cases "sint (MaxRecords (config fm1)) \<le> sint (recordCount fm1)")
    case True
    with s2 obtain fm2 w2 where ro: "RotateWriter env fm1 w1 = (None, fm2, w2)"
      and i: "initializeWriter env fm2 w2 = (None, fm3, w3)" by auto
    from c1 have inv1: "consistent fm1" by simp
    note r = rotate_step [OF ro inv1]
    from r have inv2: "consistent fm2" and z2: "recordCount fm2 = 0" by simp_all
    note n = init_step [OF i inv2 z2]
    show ?thesis
    proof (cases "recordCount fm = 0")
      case True
      with c1 r n \<open>sint (MaxRecords (config fm1)) \<le> sint (recordCount fm1)\<close> show ?thesis
        by (auto split: if_splits)
    next
      case False
      with c1 inv have "writer_open fm" by (auto split: if_splits)
      with False c1 r n \<open>sint (MaxRecords (config fm1)) \<le> sint (recordCount fm1)\<close> show ?thesis
        by (auto split: if_splits)
    qed
  next
    case False
    with s2 have e: "fm3 = fm1" "w3 = w1" by simp_all
    from False c1 have lt: "sint (recordCount fm) < sint (MaxRecords (config fm))" by simp
    have "sint (MaxRecords (config fm)) \<le> 9223372036854775807" by (rule sint_M_le)
    with lt have "sint (recordCount fm) < 9223372036854775807" by linarith
    then show ?thesis using c1 e lt by (auto split: if_splits)
  qed
  from c3 have f: "Format (config fm3) = Format (config fm)" by simp
  note wr = write_ok [OF s3]
  from c3 have sc: "sint (recordCount fm3 + 1) = sint (recordCount fm3) + 1"
    by (simp add: sint_succ)
  have cons: "consistent fm'"
    using c3 wr sc unfolding consistent_def writer_open_def
    by (auto split: if_splits simp: max_def)
  show ?thesis
  proof (cases "sint (MaxRecords (config fm)) \<le> sint (recordCount fm) \<and> recordCount fm \<noteq> 0")
    case True
    with c3 wr sc cons show ?thesis
      by (auto simp: writer_open_def record_counts_def)
  next
    case False
    with c3 wr sc cons inv show ?thesis
      by (auto simp: writer_open_def record_counts_def consistent_def split: if_splits)
  qed
qed

lemma sint_add_no_wrap:
  fixes a b :: "64 word"
  assumes "- (2 ^ 63) \<le> sint a + sint b" "sint a + sint b < 2 ^ 63"
  shows "sint (a + b) = sint a + sint b"
proof -
  have "signed_take_bit 63 (sint a + sint b) = sint a + sint b"
    by (rule signed_take_bit_int_eq_self) (use assms in simp_all)
  then show ?thesis by (simp add: sint_word_add)
qed

lemma run_accounting:
  assumes "WriteRecords env fm rs w = (None, fm', w')" and "consistent fm"
  shows "consistent fm' \<and> config fm' = config fm
    \<and> sum_list (record_counts (metadata fm')) + sint (recordCount fm')
        = sum_list (record_counts (metadata fm)) + sint (recordCount fm) + int (length rs)"
  using assms
proof (induction rs arbitrary: fm w)
  case Nil
  then show ?case by simp
next
  case (Cons r rs)
  from Cons.prems(1) obtain fm1 w1 where s: "WriteRecord env fm r w = (None, fm1, w1)"
    and t: "WriteRecords env fm1 rs w1 = (None, fm', w')"
    by (auto split: prod.splits option.splits)
  from WriteRecord_step [OF s Cons.prems(2)] Cons.IH [OF t] show ?case by simp
qed

lemma step_filled:
  assumes ok: "WriteRecord env fm r w = (None, fm', w')" and inv: "consistent fm"
    and M: "1 \<le> sint (MaxRecords (config fm))" and f: "filled fm"
  shows "filled fm'"
proof -
  note st = WriteRecord_step [OF ok inv]
  from inv M have le: "sint (recordCount fm) \<le> sint (MaxRecords (config fm))"
    by (simp add: consistent_def max_def)
  from st have "recordCount fm' \<noteq> 0" by auto
  with st f le show ?thesis
    by (auto simp: filled_def record_counts_def split: if_splits)
qed

lemma run_filled:
  assumes "WriteRecords env fm rs w = (None, fm', w')" and "consistent fm"
    and "1 \<le> sint (MaxRecords (config fm))" and "filled fm"
  shows "filled fm'"
  using assms
proof (induction rs arbitrary: fm w)
  case Nil
  then show ?case by simp
next
  case (Cons r rs)
  from Cons.prems(1) obtain fm1 w1 where s: "WriteRecord env fm r w = (None, fm1, w1)"
    and t: "WriteRecords env fm1 rs w1 = (None, fm', w')"
    by (auto split: prod.splits option.splits)
  note st = WriteRecord_step [OF s Cons.prems(2)]
  from st Cons.prems(3) have M1: "1 \<le> sint (MaxRecords (config fm1))" by simp
  from st have c1: "consistent fm1" by simp
  from Cons.IH [OF t c1 M1 step_filled [OF s Cons.prems(2,3,4)]] show ?case .
qed

lemma NewFileManager_fresh:
  assumes "NewFileManager env cfg w0 = (fm0, w1)"
  shows "consistent fm0" "filled fm0" "config fm0 = cfg" "recordCount fm0 = 0"
    "Partitions (metadata fm0) = []" "\<not> writer_open fm0" "partitionID fm0 = 0"
    "rows_out w1 = rows_out w0" "files w1 = files w0" "tick w1 = tick w0 + 2"
  using assms
  by (auto simp: NewFileManager_def prims Let_def consistent_def filled_def record_counts_def
      writer_open_def split: prod.splits)

lemma sum_list_const: "\<forall>c \<in> set xs. c = k \<Longrightarrow> sum_list xs = k * int (length xs)"
  by (induction xs) (auto simp: algebra_simps)

lemma ceil_div:
  fixes m l c :: nat
  assumes "1 \<le> m" "c \<le> m"
  shows "(m * l + c + m - 1) div m = l + (if c = 0 then 0 else 1)"
proof (cases "c = 0")
  case True
  have "(m * l + m - 1) div m = l"
    by (rule div_nat_eqI) (use assms in \<open>auto simp: algebra_simps\<close>)
  with True show ?thesis by simp
next
  case False
  have "(m * l + c + m - 1) div m = Suc l"
    by (rule div_nat_eqI) (use assms False in \<open>auto simp: algebra_simps\<close>)
  with False show ?thesis by simp
qed

text \<open>
  Claim C1. With a maximum \<open>M \<ge> 1\<close>, after a run of \<open>N\<close> successful \<^verbatim>\<open>WriteRecord\<close> calls on
  a new FileManager the completed partitions and the open one number \<open>\<lceil>N / M\<rceil>\<close>, and no
  completed partition records more than \<open>M\<close>. The rotation is decided inside the next
  \<^verbatim>\<open>WriteRecord\<close>, before the record is taken: if the counter has reached \<open>M\<close> the call
  appends the entry of the partition it closes, and its record is the first of the next
  partition; otherwise the record joins the open partition.
\<close>

theorem partition_threshold:
  assumes M: "1 \<le> sint (MaxRecords cfg)"
    and run: "run_sink env cfg rs w0 = (None, fm, w)"
  shows "partition_count fm
           = (length rs + nat (sint (MaxRecords cfg)) - 1) div nat (sint (MaxRecords cfg))
    \<and> (\<forall>p \<in> set (Partitions (metadata fm)). sint (RecordCount p) \<le> sint (MaxRecords cfg))
    \<and> (\<forall>r fm' w'. WriteRecord env fm r w = (None, fm', w') \<longrightarrow>
          (if sint (MaxRecords cfg) \<le> sint (recordCount fm)
           then (\<exists>info. Partitions (metadata fm') = Partitions (metadata fm) @ [info]
                   \<and> RecordCount info = recordCount fm)
                \<and> recordCount fm' = 1 \<and> partitionID fm' = partitionID fm + 1
           else Partitions (metadata fm') = Partitions (metadata fm)
                \<and> recordCount fm' = recordCount fm + 1)
          \<and> rows_out w' = rows_out w @ [(r, partitionID fm')])"
proof -
  obtain fm0 w1 where n: "NewFileManager env cfg w0 = (fm0, w1)" by (cases "NewFileManager env cfg w0")
  with run have wr: "WriteRecords env fm0 rs w1 = (None, fm, w)" by (simp add: run_sink_def)
  note fresh = NewFileManager_fresh [OF n]
  from M fresh have M0: "1 \<le> sint (MaxRecords (config fm0))" by simp
  note acc = run_accounting [OF wr fresh(1)]
  note fil = run_filled [OF wr fresh(1) M0 fresh(2)]
  from acc fresh have cfg: "config fm = cfg" and cons: "consistent fm" by simp_all
  let ?M = "sint (MaxRecords cfg)"
  let ?l = "length (Partitions (metadata fm))"
  from fil cfg have "sum_list (record_counts (metadata fm)) = ?M * int (length (record_counts (metadata fm)))"
    by (intro sum_list_const) (simp add: filled_def)
  then have sm: "sum_list (record_counts (metadata fm)) = ?M * int ?l"
    by (simp add: record_counts_def)
  from acc fresh sm have tot: "?M * int ?l + sint (recordCount fm) = int (length rs)"
    by (simp add: record_counts_def)
  from cons cfg M have rc: "0 \<le> sint (recordCount fm)" "sint (recordCount fm) \<le> ?M"
    by (simp_all add: consistent_def max_def)
  define m where "m = nat ?M"
  define c where "c = nat (sint (recordCount fm))"
  from M rc have mc: "1 \<le> m" "c \<le> m" "int m = ?M" "int c = sint (recordCount fm)"
    by (simp_all add: m_def c_def)
  from tot mc have "int (m * ?l + c) = int (length rs)" by simp
  then have len: "length rs = m * ?l + c" by linarith
  have "c = 0 \<longleftrightarrow> sint (recordCount fm) = 0" using rc(1) by (simp add: c_def)
  then have "c = 0 \<longleftrightarrow> recordCount fm = 0" by (simp add: signed_eq_0_iff)
  with fil have open_iff: "writer_open fm \<longleftrightarrow> c \<noteq> 0" by (simp add: filled_def)
  have "partition_count fm = ?l + (if c = 0 then 0 else 1)"
    by (simp add: partition_count_def open_iff)
  also have "\<dots> = (m * ?l + c + m - 1) div m"
    by (rule ceil_div [symmetric]) (use mc in simp_all)
  finally have p1: "partition_count fm = (length rs + m - 1) div m" by (simp add: len)
  have p2: "\<forall>p \<in> set (Partitions (metadata fm)). sint (RecordCount p) \<le> ?M"
    using fil cfg by (auto simp: filled_def record_counts_def)
  have p3: "(if ?M \<le> sint (recordCount fm)
           then (\<exists>info. Partitions (metadata fm') = Partitions (metadata fm) @ [info]
                   \<and> RecordCount info = recordCount fm)
                \<and> recordCount fm' = 1 \<and> partitionID fm' = partitionID fm + 1
           else Partitions (metadata fm') = Partitions (metadata fm)
                \<and> recordCount fm' = recordCount fm + 1)
          \<and> rows_out w' = rows_out w @ [(r, partitionID fm')]"
    if s: "WriteRecord env fm r w = (None, fm', w')" for r fm' w'
  proof -
    note st = WriteRecord_step [OF s cons]
    show ?thesis
    proof (cases "?M \<le> sint (recordCount fm)")
      case True
      with M have nz: "recordCount fm \<noteq> 0" by auto
      with fil have "writer_open fm" by (simp add: filled_def)
      with st True nz cfg show ?thesis by auto
    next
      case False
      with st cfg show ?thesis by auto
    qed
  qed
  from p1 p2 p3 show ?thesis unfolding m_def by blast
qed

lemmas fm_defs = run_sink_def NewFileManager_def WriteRecord_def initializeWriter_def
  initializeCSVWriter_def initializeDuckDBWriter_def writeCSVRecord_def writeDuckDBRecord_def
  RotateWriter_def rotateCSVWriter_def rotateDuckDBWriter_def CreateHivePartitionPath_def
  filepath_Join_def filepath_Base_def prims lines_of_def FormatCSV_def FormatParquet_def
  Sprintf_04d_def FormatInt_def nat_dec.simps digit_char_def csv_headers_def Let_def
  env_ok_def world0_def rec_of_def cfg_csv_def

lemma run_three_ok:
  "fst (run_sink env_ok (cfg_csv 2) [rec_of ''a'', rec_of ''b'', rec_of ''c''] world0) = None"
  by (simp add: fm_defs)

theorem partition_threshold_witness:
  "1 \<le> sint (MaxRecords (cfg_csv 2))
   \<and> fst (run_sink env_ok (cfg_csv 2) [rec_of ''a'', rec_of ''b'', rec_of ''c''] world0) = None
   \<and> partition_count
        (fst (snd (run_sink env_ok (cfg_csv 2) [rec_of ''a'', rec_of ''b'', rec_of ''c''] world0))) = 2"
proof -
  let ?run = "run_sink env_ok (cfg_csv 2) [rec_of ''a'', rec_of ''b'', rec_of ''c''] world0"
  have h1: "1 \<le> sint (MaxRecords (cfg_csv 2))" by (simp add: cfg_csv_def)
  have h2: "?run = (None, fst (snd ?run), snd (snd ?run))"
    using run_three_ok by (metis prod.collapse)
  from partition_threshold [OF h1 h2]
  have "partition_count (fst (snd ?run))
          = (length [rec_of ''a'', rec_of ''b'', rec_of ''c''] + nat (sint (MaxRecords (cfg_csv 2))) - 1)
              div nat (sint (MaxRecords (cfg_csv 2)))"
    by blast
  then have "partition_count (fst (snd ?run)) = 2" by (simp add: cfg_csv_def)
  with h1 run_three_ok show ?thesis by blast
qed

text \<open>
  Claim C10. \<^verbatim>\<open>RotateWriter\<close> on a FileManager whose \<^verbatim>\<open>recordCount\<close> is 0 returns no error
  and changes neither the FileManager (so no \<^verbatim>\<open>PartitionInfo\<close> is appended and no handle is
  closed) nor the world, whatever the configured format.
\<close>

theorem RotateWriter_empty_noop:
  "recordCount fm = 0 \<Longrightarrow> RotateWriter env fm w = (None, fm, w)"
  by (simp add: RotateWriter_def)

theorem RotateWriter_empty_noop_witness:
  "recordCount (fst (NewFileManager env_ok \<lparr>OutputDir = ''out'', Format = ''invalid'', MaxRecords = 5\<rparr> world0)) = 0
   \<and> RotateWriter env_ok
        (fst (NewFileManager env_ok \<lparr>OutputDir = ''out'', Format = ''invalid'', MaxRecords = 5\<rparr> world0)) world0
      = (None, fst (NewFileManager env_ok \<lparr>OutputDir = ''out'', Format = ''invalid'', MaxRecords = 5\<rparr> world0),
         world0)"
proof -
  let ?fm = "fst (NewFileManager env_ok \<lparr>OutputDir = ''out'', Format = ''invalid'', MaxRecords = 5\<rparr> world0)"
  have h: "recordCount ?fm = 0" by (simp add: NewFileManager_def prims Let_def)
  from RotateWriter_empty_noop [OF h, of env_ok world0] h show ?thesis by blast
qed

lemma RotateWriter_config: "RotateWriter env fm w = (e, fm1, w1) \<Longrightarrow> config fm1 = config fm"
  by (auto simp: RotateWriter_def rotateCSVWriter_def rotateDuckDBWriter_def prims Let_def
      split: prod.splits option.splits sum.splits if_splits)

lemma RotateWriter_no_panic: "RotateWriter env fm w = (e, fm1, w1) \<Longrightarrow> \<not> is_panic e"
  by (auto simp: RotateWriter_def rotateCSVWriter_def rotateDuckDBWriter_def prims Let_def
      split: prod.splits option.splits sum.splits if_splits)

lemma final_rotation_config: "final_rotation env fm w = (e, fm1, w1) \<Longrightarrow> config fm1 = config fm"
  by (auto simp: final_rotation_def split: if_splits dest: RotateWriter_config)

lemma final_rotation_no_panic: "final_rotation env fm w = (e, fm1, w1) \<Longrightarrow> \<not> is_panic e"
  by (auto simp: final_rotation_def split: if_splits dest: RotateWriter_no_panic)

lemma Close_tail:
  assumes cl: "Close env fm w = (e, fm', w')" and fr: "final_rotation env fm w = (e0, fm1, w1)"
  shows "\<forall>p. p \<noteq> metadataPath env fm \<longrightarrow> map_of (files w') p = map_of (files w1) p"
    and "Partitions (metadata fm') = Partitions (metadata fm1)"
    and "dirs w' = dirs w1" and "rows_out w' = rows_out w1"
    and "e = None \<longrightarrow> map_of (files w') (metadataPath env fm) = Some (JsonData (metadata fm'))"
    and "recordCount fm' = recordCount fm1"
proof -
  note np = final_rotation_no_panic [OF fr]
  note cf = final_rotation_config [OF fr]
  define w2 where "w2 = (case e0 of Some e \<Rightarrow> fmt_Print (''Error rotating final writer: '' @ message e) w1
                          | None \<Rightarrow> w1)"
  define fm2 where "fm2 = fm1\<lparr>metadata := (metadata fm1)\<lparr>EndTime := clock env (tick w2)\<rparr>\<rparr>"
  have mp: "metadataPath env fm2 = metadataPath env fm"
    using cf by (simp add: metadataPath_def fm2_def)
  have "Close env fm w =
    (case os_Create env (metadataPath env fm) (tick_next w2) of
       (Some e, w3) \<Rightarrow> (Some (Errorf ''failed to create metadata file: '' e), fm2, w3)
     | (None, w3) \<Rightarrow>
         (case json_Encode env (metadataPath env fm) (metadata fm2) w3 of
            (Some e, w4) \<Rightarrow> (Some (Errorf ''failed to write metadata: '' e), fm2, close_metadataFile env w4)
          | (None, w4) \<Rightarrow> (None, fm2, close_metadataFile env w4)))"
  proof (cases "0 < sint (recordCount fm)")
    case True
    with fr have r: "RotateWriter env fm w = (e0, fm1, w1)" by (simp add: final_rotation_def)
    show ?thesis
    proof (cases e0)
      case None
      with True r mp show ?thesis
        by (simp add: Close_def time_Now_def Let_def w2_def fm2_def split: prod.splits option.splits)
    next
      case (Some err)
      with np have "\<not> is_panic (Some err)" by simp
      with Some True r mp show ?thesis
        by (simp add: Close_def time_Now_def Let_def w2_def fm2_def split: prod.splits option.splits)
    qed
  next
    case False
    with fr have "e0 = None" "fm1 = fm" "w1 = w" by (simp_all add: final_rotation_def)
    with False mp show ?thesis
      by (simp add: Close_def time_Now_def Let_def w2_def fm2_def split: prod.splits option.splits)
  qed
  with cl have c: "(case os_Create env (metadataPath env fm) (tick_next w2) of
       (Some e, w3) \<Rightarrow> (Some (Errorf ''failed to create metadata file: '' e), fm2, w3)
     | (None, w3) \<Rightarrow>
         (case json_Encode env (metadataPath env fm) (metadata fm2) w3 of
            (Some e, w4) \<Rightarrow> (Some (Errorf ''failed to write metadata: '' e), fm2, close_metadataFile env w4)
          | (None, w4) \<Rightarrow> (None, fm2, close_metadataFile env w4))) = (e, fm', w')" by simp
  have f2: "files w2 = files w1" "dirs w2 = dirs w1" "rows_out w2 = rows_out w1"
    by (simp_all add: w2_def fmt_Print_def split: option.splits)
  from c have fm': "fm' = fm2" by (auto split: prod.splits option.splits)
  show "\<forall>p. p \<noteq> metadataPath env fm \<longrightarrow> map_of (files w') p = map_of (files w1) p"
    using c f2 by (auto simp: os_Create_def json_Encode_def tick_next_def close_metadataFile_def
        ext_call_def fmt_Print_def update_conv' split: prod.splits option.splits)
  show "Partitions (metadata fm') = Partitions (metadata fm1)"
    using fm' by (simp add: fm2_def)
  show "dirs w' = dirs w1"
    using c f2 by (auto simp: os_Create_def json_Encode_def tick_next_def close_metadataFile_def
        ext_call_def fmt_Print_def split: prod.splits option.splits)
  show "rows_out w' = rows_out w1"
    using c f2 by (auto simp: os_Create_def json_Encode_def tick_next_def close_metadataFile_def
        ext_call_def fmt_Print_def split: prod.splits option.splits)
  show "e = None \<longrightarrow> map_of (files w') (metadataPath env fm) = Some (JsonData (metadata fm'))"
    using c by (auto simp: os_Create_def json_Encode_def tick_next_def close_metadataFile_def
        ext_call_def fmt_Print_def update_conv' split: prod.splits option.splits)
  show "recordCount fm' = recordCount fm1"
    using fm' by (simp add: fm2_def)
qed

text \<open>
  Claim C2, as the code has it. \<^verbatim>\<open>Close\<close> only prints the error of a failed final rotation
  and goes on to write the metadata, so the claim holds of the runs whose final rotation does
  not fail: when every \<^verbatim>\<open>WriteRecord\<close> of a run succeeded, the final rotation in \<^verbatim>\<open>Close\<close>
  did not fail and \<^verbatim>\<open>Close\<close> returned \<^verbatim>\<open>nil\<close>, the metadata file holds the metadata, and
  the \<^verbatim>\<open>record_count\<close> fields of its partitions add up to the number of records written.
\<close>

theorem metadata_completeness:
  assumes run: "run_sink env cfg rs w0 = (None, fm, w)"
    and rot: "fst (final_rotation env fm w) = None"
    and cl: "Close env fm w = (None, fm', w')"
  shows "map_of (files w') (metadataPath env fm) = Some (JsonData (metadata fm'))
    \<and> sum_list (record_counts (metadata fm')) = int (length rs)"
proof -
  obtain fm0 w1 where n: "NewFileManager env cfg w0 = (fm0, w1)" by (cases "NewFileManager env cfg w0")
  with run have wr: "WriteRecords env fm0 rs w1 = (None, fm, w)" by (simp add: run_sink_def)
  note fresh = NewFileManager_fresh [OF n]
  note acc = run_accounting [OF wr fresh(1)]
  from acc have cons: "consistent fm" by simp
  from acc fresh have tot: "sum_list (record_counts (metadata fm)) + sint (recordCount fm) = int (length rs)"
    by (simp add: record_counts_def)
  obtain fm1 w2 where fr: "final_rotation env fm w = (None, fm1, w2)"
    using rot by (cases "final_rotation env fm w") auto
  note t = Close_tail [OF cl fr]
  have "sum_list (record_counts (metadata fm1)) = sum_list (record_counts (metadata fm)) + sint (recordCount fm)"
  proof (cases "0 < sint (recordCount fm)")
    case True
    with fr have r: "RotateWriter env fm w = (None, fm1, w2)" by (simp add: final_rotation_def)
    from True have "recordCount fm \<noteq> 0" by auto
    with rotate_step [OF r cons] show ?thesis by (auto simp: record_counts_def)
  next
    case False
    with cons have "sint (recordCount fm) = 0" by (simp add: consistent_def)
    moreover from False fr have "fm1 = fm" by (simp add: final_rotation_def)
    ultimately show ?thesis by simp
  qed
  with tot t(2) have "sum_list (record_counts (metadata fm')) = int (length rs)"
    by (simp add: record_counts_def)
  with t(5) show ?thesis by simp
qed

lemma run_stamps:
  assumes "WriteRecords env fm rs w = (None, fm', w')" and "consistent fm"
    and "0 \<le> sint (partitionID fm)"
    and "sint (partitionID fm) + 2 * int (length rs) < 2 ^ 63"
    and "\<forall>x \<in> set (rows_out w). sint (snd x) \<le> sint (partitionID fm)"
    and "sorted (map (\<lambda>x. sint (snd x)) (rows_out w))"
  shows "consistent fm' \<and> 0 \<le> sint (partitionID fm')
    \<and> sint (partitionID fm') \<le> sint (partitionID fm) + 2 * int (length rs)
    \<and> (\<forall>x \<in> set (rows_out w'). sint (snd x) \<le> sint (partitionID fm'))
    \<and> sorted (map (\<lambda>x. sint (snd x)) (rows_out w'))
    \<and> map fst (rows_out w') = map fst (rows_out w) @ rs"
  using assms
proof (induction rs arbitrary: fm w)
  case Nil
  then show ?case by simp
next
  case (Cons r rs)
  from Cons.prems(1) obtain fm1 w1 where s: "WriteRecord env fm r w = (None, fm1, w1)"
    and t: "WriteRecords env fm1 rs w1 = (None, fm', w')"
    by (auto split: prod.splits option.splits)
  note st = WriteRecord_step [OF s Cons.prems(2)]
  define a :: "64 word" where "a = (if writer_open fm then 0 else 1)"
  define b :: "64 word" where "b = (if sint (MaxRecords (config fm)) \<le> sint (recordCount fm) then 1 else 0)"
  from st have pid: "partitionID fm1 = partitionID fm + a + b" by (simp add: a_def b_def)
  have ab: "0 \<le> sint a" "sint a \<le> 1" "0 \<le> sint b" "sint b \<le> 1" by (simp_all add: a_def b_def)
  from Cons.prems(3,4) ab have s1: "sint (partitionID fm + a) = sint (partitionID fm) + sint a"
    by (intro sint_add_no_wrap) auto
  from Cons.prems(3,4) ab s1 have s2: "sint (partitionID fm + a + b) = sint (partitionID fm) + sint a + sint b"
    by (simp add: sint_add_no_wrap)
  from pid s2 ab have mono: "sint (partitionID fm) \<le> sint (partitionID fm1)"
    "sint (partitionID fm1) \<le> sint (partitionID fm) + 2" by simp_all
  from st have ro: "rows_out w1 = rows_out w @ [(r, partitionID fm1)]" by simp
  have c1: "consistent fm1" using st by simp
  have c2: "0 \<le> sint (partitionID fm1)" using mono Cons.prems(3) by simp
  have c3: "sint (partitionID fm1) + 2 * int (length rs) < 2 ^ 63" using mono Cons.prems(4) by simp
  have c4: "\<forall>x \<in> set (rows_out w1). sint (snd x) \<le> sint (partitionID fm1)"
    using ro mono Cons.prems(5) by fastforce
  have c5: "sorted (map (\<lambda>x. sint (snd x)) (rows_out w1))"
    using ro mono Cons.prems(5,6) by (fastforce simp: sorted_append)
  from Cons.IH [OF t c1 c2 c3 c4 c5] mono ro show ?case by simp
qed

text \<open>
  Claim C9. In a run of successful writes (fewer than \<open>2\<^sup>6\<^sup>1\<close>, so that the 64-bit counter
  does not wrap) the partition ids stamped on the rows, in write order, never decrease, and
  the rows are the records written. \<^verbatim>\<open>initializeWriter\<close> adds one to \<^verbatim>\<open>partitionID\<close>. The next
  successful \<^verbatim>\<open>WriteRecord\<close> stamps its row with the \<^verbatim>\<open>partitionID\<close> it leaves, which is at
  least every earlier stamp; when the call rotates (it appends a partition entry) the id
  is the previous one plus one and is greater than every earlier stamp.
\<close>

theorem partition_id_monotone:
  assumes run: "run_sink env cfg rs w0 = (None, fm, w)"
    and fresh: "rows_out w0 = []"
    and bound: "length rs < 2 ^ 61"
  shows "sorted (map (\<lambda>x. sint (snd x)) (rows_out w))
    \<and> map fst (rows_out w) = rs
    \<and> partitionID (fst (snd (initializeWriter env fm w))) = partitionID fm + 1
    \<and> (\<forall>r fm' w'. WriteRecord env fm r w = (None, fm', w') \<longrightarrow>
          rows_out w' = rows_out w @ [(r, partitionID fm')]
          \<and> (\<forall>x \<in> set (rows_out w). sint (snd x) \<le> sint (partitionID fm'))
          \<and> (Partitions (metadata fm') \<noteq> Partitions (metadata fm) \<longrightarrow>
               sint (partitionID fm') = sint (partitionID fm) + 1
               \<and> (\<forall>x \<in> set (rows_out w). sint (snd x) < sint (partitionID fm'))))"
proof -
  obtain fm0 w1 where n: "NewFileManager env cfg w0 = (fm0, w1)" by (cases "NewFileManager env cfg w0")
  with run have wr: "WriteRecords env fm0 rs w1 = (None, fm, w)" by (simp add: run_sink_def)
  note new = NewFileManager_fresh [OF n]
  from bound have b: "2 * int (length rs) < 2 ^ 62" by simp
  have st: "consistent fm \<and> 0 \<le> sint (partitionID fm)
    \<and> sint (partitionID fm) \<le> sint (partitionID fm0) + 2 * int (length rs)
    \<and> (\<forall>x \<in> set (rows_out w). sint (snd x) \<le> sint (partitionID fm))
    \<and> sorted (map (\<lambda>x. sint (snd x)) (rows_out w))
    \<and> map fst (rows_out w) = map fst (rows_out w1) @ rs"
    by (rule run_stamps [OF wr new(1)]) (use new fresh b in simp_all)
  from st new b have hi: "sint (partitionID fm) < 2 ^ 62" by simp
  have p1: "sorted (map (\<lambda>x. sint (snd x)) (rows_out w))" and p2: "map fst (rows_out w) = rs"
    using st new fresh by simp_all
  have p3: "partitionID (fst (snd (initializeWriter env fm w))) = partitionID fm + 1"
    by (simp add: initializeWriter_def initializeCSVWriter_def initializeDuckDBWriter_def prims Let_def
        split: prod.splits option.splits sum.splits)
  have p4: "rows_out w' = rows_out w @ [(r, partitionID fm')]
          \<and> (\<forall>x \<in> set (rows_out w). sint (snd x) \<le> sint (partitionID fm'))
          \<and> (Partitions (metadata fm') \<noteq> Partitions (metadata fm) \<longrightarrow>
               sint (partitionID fm') = sint (partitionID fm) + 1
               \<and> (\<forall>x \<in> set (rows_out w). sint (snd x) < sint (partitionID fm')))"
    if s: "WriteRecord env fm r w = (None, fm', w')" for r fm' w'
  proof -
    from st have cons: "consistent fm" by simp
    note ws = WriteRecord_step [OF s cons]
    from s have one: "WriteRecords env fm [r] w = (None, fm', w')" by simp
    have nx: "consistent fm' \<and> 0 \<le> sint (partitionID fm')
      \<and> sint (partitionID fm') \<le> sint (partitionID fm) + 2 * int (length [r])
      \<and> (\<forall>x \<in> set (rows_out w'). sint (snd x) \<le> sint (partitionID fm'))
      \<and> sorted (map (\<lambda>x. sint (snd x)) (rows_out w'))
      \<and> map fst (rows_out w') = map fst (rows_out w) @ [r]"
      by (rule run_stamps [OF one cons]) (use st hi in simp_all)
    from ws have ro: "rows_out w' = rows_out w @ [(r, partitionID fm')]" by simp
    with nx have le: "\<forall>x \<in> set (rows_out w). sint (snd x) \<le> sint (partitionID fm')" by simp
    have strict: "sint (partitionID fm') = sint (partitionID fm) + 1
               \<and> (\<forall>x \<in> set (rows_out w). sint (snd x) < sint (partitionID fm'))"
      if ch: "Partitions (metadata fm') \<noteq> Partitions (metadata fm)"
    proof -
      from ws ch have tr: "sint (MaxRecords (config fm)) \<le> sint (recordCount fm)" "recordCount fm \<noteq> 0"
        by (auto split: if_splits)
      with cons have "writer_open fm" by (auto simp: consistent_def writer_open_def split: if_splits)
      with ws tr have "partitionID fm' = partitionID fm + 1" by simp
      moreover have "sint (partitionID fm + 1) = sint (partitionID fm) + 1"
        using hi by (intro sint_succ) simp
      ultimately have "sint (partitionID fm') = sint (partitionID fm) + 1" by simp
      with st show ?thesis by fastforce
    qed
    from ro le strict show ?thesis by blast
  qed
  from p1 p2 p3 p4 show ?thesis by blast
qed

lemma Close_empty:
  assumes z: "recordCount fm = 0" and cl: "Close env fm w = (e, fm', w')"
  shows "fm' = fm\<lparr>metadata := (metadata fm)\<lparr>EndTime := clock env (tick w)\<rparr>\<rparr>"
    and "e = None \<longleftrightarrow> fault env (tick w + 1) = None \<and> fault env (tick w + 2) = None"
    and "\<forall>p. p \<noteq> metadataPath env fm \<longrightarrow> map_of (files w') p = map_of (files w) p"
    and "dirs w' = dirs w" and "rows_out w' = rows_out w"
    and "e = None \<longrightarrow> map_of (files w') (metadataPath env fm) = Some (JsonData (metadata fm'))"
proof -
  have "Close env fm w =
    (case os_Create env (metadataPath env fm) (tick_next w) of
       (Some e, w3) \<Rightarrow> (Some (Errorf ''failed to create metadata file: '' e),
          fm\<lparr>metadata := (metadata fm)\<lparr>EndTime := clock env (tick w)\<rparr>\<rparr>, w3)
     | (None, w3) \<Rightarrow>
         (case json_Encode env (metadataPath env fm)
                 ((metadata fm)\<lparr>EndTime := clock env (tick w)\<rparr>) w3 of
            (Some e, w4) \<Rightarrow> (Some (Errorf ''failed to write metadata: '' e),
               fm\<lparr>metadata := (metadata fm)\<lparr>EndTime := clock env (tick w)\<rparr>\<rparr>, close_metadataFile env w4)
          | (None, w4) \<Rightarrow> (None, fm\<lparr>metadata := (metadata fm)\<lparr>EndTime := clock env (tick w)\<rparr>\<rparr>,
               close_metadataFile env w4)))"
    using z by (simp add: Close_def time_Now_def Let_def metadataPath_def split: prod.splits option.splits)
  with cl have c: "(case os_Create env (metadataPath env fm) (tick_next w) of
       (Some e, w3) \<Rightarrow> (Some (Errorf ''failed to create metadata file: '' e),
          fm\<lparr>metadata := (metadata fm)\<lparr>EndTime := clock env (tick w)\<rparr>\<rparr>, w3)
     | (None, w3) \<Rightarrow>
         (case json_Encode env (metadataPath env fm)
                 ((metadata fm)\<lparr>EndTime := clock env (tick w)\<rparr>) w3 of
            (Some e, w4) \<Rightarrow> (Some (Errorf ''failed to write metadata: '' e),
               fm\<lparr>metadata := (metadata fm)\<lparr>EndTime := clock env (tick w)\<rparr>\<rparr>, close_metadataFile env w4)
          | (None, w4) \<Rightarrow> (None, fm\<lparr>metadata := (metadata fm)\<lparr>EndTime := clock env (tick w)\<rparr>\<rparr>,
               close_metadataFile env w4))) = (e, fm', w')" by simp
  show "fm' = fm\<lparr>metadata := (metadata fm)\<lparr>EndTime := clock env (tick w)\<rparr>\<rparr>"
    using c by (auto split: prod.splits option.splits)
  show "e = None \<longleftrightarrow> fault env (tick w + 1) = None \<and> fault env (tick w + 2) = None"
    using c by (auto simp: os_Create_def json_Encode_def tick_next_def split: prod.splits option.splits)
  show "\<forall>p. p \<noteq> metadataPath env fm \<longrightarrow> map_of (files w') p = map_of (files w) p"
    using c by (auto simp: os_Create_def json_Encode_def tick_next_def close_metadataFile_def
        ext_call_def fmt_Print_def update_conv' split: prod.splits option.splits)
  show "dirs w' = dirs w"
    using c by (auto simp: os_Create_def json_Encode_def tick_next_def close_metadataFile_def
        ext_call_def fmt_Print_def split: prod.splits option.splits)
  show "rows_out w' = rows_out w"
    using c by (auto simp: os_Create_def json_Encode_def tick_next_def close_metadataFile_def
        ext_call_def fmt_Print_def split: prod.splits option.splits)
  show "e = None \<longrightarrow> map_of (files w') (metadataPath env fm) = Some (JsonData (metadata fm'))"
    using c by (auto simp: os_Create_def json_Encode_def tick_next_def close_metadataFile_def
        ext_call_def fmt_Print_def update_conv' split: prod.splits option.splits)
qed

text \<open>
  Claim C6. \<^verbatim>\<open>Close\<close> on a new FileManager, with no \<^verbatim>\<open>WriteRecord\<close> before it, changes no
  file other than \<^verbatim>\<open>export_metadata.json\<close> in the output directory and creates no
  directory; the partitions list stays empty; it returns no error exactly when creating and
  encoding the metadata file do not fail, and then the file holds the metadata.
\<close>

theorem empty_run_close:
  assumes new: "NewFileManager env cfg w0 = (fm0, w1)"
    and cl: "Close env fm0 w1 = (e, fm', w')"
  shows "(\<forall>p. p \<noteq> metadataPath env fm0 \<longrightarrow> map_of (files w') p = map_of (files w0) p)
    \<and> dirs w' = dirs w0
    \<and> Partitions (metadata fm') = []
    \<and> metadataPath env fm0 = filepath_Join env [OutputDir cfg, ''export_metadata.json'']
    \<and> (e = None \<longleftrightarrow> fault env (tick w0 + 3) = None \<and> fault env (tick w0 + 4) = None)
    \<and> (e = None \<longrightarrow> map_of (files w') (metadataPath env fm0) = Some (JsonData (metadata fm')))"
proof -
  note n = NewFileManager_fresh [OF new]
  note c = Close_empty [OF n(4) cl]
  from new have d: "dirs w1 = dirs w0" by (auto simp: NewFileManager_def prims Let_def)
  from c(1) n(5) have "Partitions (metadata fm') = []" by simp
  moreover from n(3) have "metadataPath env fm0 = filepath_Join env [OutputDir cfg, ''export_metadata.json'']"
    by (simp add: metadataPath_def)
  moreover from c(2) n(10) have "e = None \<longleftrightarrow> fault env (tick w0 + 3) = None \<and> fault env (tick w0 + 4) = None"
    by (simp add: numeral_3_eq_3 numeral_Bit0 add.commute)
  ultimately show ?thesis using c(3,4,6) n(9) d by simp
qed

theorem partition_id_monotone_witness:
  "fst (run_sink env_ok (cfg_csv 2) [rec_of ''a'', rec_of ''b'', rec_of ''c''] world0) = None
   \<and> rows_out world0 = []
   \<and> length [rec_of ''a'', rec_of ''b'', rec_of ''c''] < 2 ^ 61
   \<and> sorted (map (\<lambda>x. sint (snd x))
        (rows_out (snd (snd (run_sink env_ok (cfg_csv 2) [rec_of ''a'', rec_of ''b'', rec_of ''c''] world0)))))"
proof -
  let ?run = "run_sink env_ok (cfg_csv 2) [rec_of ''a'', rec_of ''b'', rec_of ''c''] world0"
  have h1: "?run = (None, fst (snd ?run), snd (snd ?run))"
    using run_three_ok by (metis prod.collapse)
  have h2: "rows_out world0 = []" by (simp add: world0_def)
  have h3: "length [rec_of ''a'', rec_of ''b'', rec_of ''c''] < 2 ^ 61" by simp
  from partition_id_monotone [OF h1 h2 h3]
  have "sorted (map (\<lambda>x. sint (snd x)) (rows_out (snd (snd ?run))))" by blast
  with run_three_ok h2 h3 show ?thesis by blast
qed

theorem empty_run_close_witness:
  "fst (Close env_ok (fst (NewFileManager env_ok (cfg_csv 2) world0))
          (snd (NewFileManager env_ok (cfg_csv 2) world0))) = None
   \<and> map_of (files (snd (snd (Close env_ok (fst (NewFileManager env_ok (cfg_csv 2) world0))
          (snd (NewFileManager env_ok (cfg_csv 2) world0)))))) ''out/redis_data_part_0001.csv'' = None
   \<and> Partitions (metadata (fst (snd (Close env_ok (fst (NewFileManager env_ok (cfg_csv 2) world0))
          (snd (NewFileManager env_ok (cfg_csv 2) world0)))))) = []"
proof -
  let ?new = "NewFileManager env_ok (cfg_csv 2) world0"
  let ?cl = "Close env_ok (fst ?new) (snd ?new)"
  have h1: "?new = (fst ?new, snd ?new)" by simp
  have h2: "?cl = (fst ?cl, fst (snd ?cl), snd (snd ?cl))" by simp
  note t = empty_run_close [OF h1 h2]
  have p: "metadataPath env_ok (fst ?new) = ''out/export_metadata.json''"
    by (simp add: metadataPath_def NewFileManager_def prims Let_def filepath_Join_def env_ok_def
        cfg_csv_def)
  have "fault env_ok (tick world0 + 3) = None \<and> fault env_ok (tick world0 + 4) = None"
    by (simp add: env_ok_def)
  with t have a: "fst ?cl = None" by blast
  from t have "''out/redis_data_part_0001.csv'' \<noteq> metadataPath env_ok (fst ?new) \<longrightarrow>
      map_of (files (snd (snd ?cl))) ''out/redis_data_part_0001.csv''
        = map_of (files world0) ''out/redis_data_part_0001.csv''" by blast
  moreover have "''out/redis_data_part_0001.csv'' \<noteq> metadataPath env_ok (fst ?new)"
    by (simp add: p)
  ultimately have "map_of (files (snd (snd ?cl))) ''out/redis_data_part_0001.csv''
      = map_of (files world0) ''out/redis_data_part_0001.csv''" by blast
  then have b: "map_of (files (snd (snd ?cl))) ''out/redis_data_part_0001.csv'' = None"
    by (simp add: world0_def)
  from t have c: "Partitions (metadata (fst (snd ?cl))) = []" by blast
  from a b c show ?thesis by blast
qed

lemmas close_defs = Close_def close_metadataFile_def metadataPath_def final_rotation_def

text \<open>The claim as stated fails when the \<^verbatim>\<open>Stat\<close> of the final rotation fails: all three
  writes succeed and \<^verbatim>\<open>Close\<close> returns \<^verbatim>\<open>nil\<close>, but the metadata written counts two
  records.\<close>

theorem metadata_completeness_counterexample:
  "fst (run_sink env_stat_fails (cfg_csv 2) [rec_of ''a'', rec_of ''b'', rec_of ''c''] world0) = None
   \<and> fst (Close env_stat_fails
        (fst (snd (run_sink env_stat_fails (cfg_csv 2) [rec_of ''a'', rec_of ''b'', rec_of ''c''] world0)))
        (snd (snd (run_sink env_stat_fails (cfg_csv 2) [rec_of ''a'', rec_of ''b'', rec_of ''c''] world0))))
       = None
   \<and> written_counts
        (map_of (files (snd (snd (Close env_stat_fails
          (fst (snd (run_sink env_stat_fails (cfg_csv 2) [rec_of ''a'', rec_of ''b'', rec_of ''c''] world0)))
          (snd (snd (run_sink env_stat_fails (cfg_csv 2) [rec_of ''a'', rec_of ''b'', rec_of ''c''] world0)))))))
          ''out/export_metadata.json'')
       = Some [2]
   \<and> length [rec_of ''a'', rec_of ''b'', rec_of ''c''] = 3"
  by (simp add: close_defs env_stat_fails_def fm_defs record_counts_def)

theorem metadata_completeness_witness:
  "fst (run_sink env_ok (cfg_csv 2) [rec_of ''a'', rec_of ''b'', rec_of ''c''] world0) = None
   \<and> fst (final_rotation env_ok
        (fst (snd (run_sink env_ok (cfg_csv 2) [rec_of ''a'', rec_of ''b'', rec_of ''c''] world0)))
        (snd (snd (run_sink env_ok (cfg_csv 2) [rec_of ''a'', rec_of ''b'', rec_of ''c''] world0)))) = None
   \<and> fst (Close env_ok
        (fst (snd (run_sink env_ok (cfg_csv 2) [rec_of ''a'', rec_of ''b'', rec_of ''c''] world0)))
        (snd (snd (run_sink env_ok (cfg_csv 2) [rec_of ''a'', rec_of ''b'', rec_of ''c''] world0)))) = None
   \<and> sum_list (record_counts (metadata (fst (snd
        (Close env_ok
           (fst (snd (run_sink env_ok (cfg_csv 2) [rec_of ''a'', rec_of ''b'', rec_of ''c''] world0)))
           (snd (snd (run_sink env_ok (cfg_csv 2) [rec_of ''a'', rec_of ''b'', rec_of ''c''] world0)))))))) = 3"
proof -
  let ?run = "run_sink env_ok (cfg_csv 2) [rec_of ''a'', rec_of ''b'', rec_of ''c''] world0"
  let ?cl = "Close env_ok (fst (snd ?run)) (snd (snd ?run))"
  have h1: "?run = (None, fst (snd ?run), snd (snd ?run))"
    using run_three_ok by (metis prod.collapse)
  have h2: "fst (final_rotation env_ok (fst (snd ?run)) (snd (snd ?run))) = None"
    by (simp add: close_defs fm_defs)
  have c: "fst ?cl = None" by (simp add: close_defs fm_defs)
  then have h3: "?cl = (None, fst (snd ?cl), snd (snd ?cl))" by (metis prod.collapse)
  from metadata_completeness [OF h1 h2 h3]
  have "sum_list (record_counts (metadata (fst (snd ?cl)))) = int (length [rec_of ''a'', rec_of ''b'', rec_of ''c''])"
    by (rule conjunct2)
  then have "sum_list (record_counts (metadata (fst (snd ?cl)))) = 3" by simp
  with run_three_ok h2 c show ?thesis by (intro conjI)
qed

section \<open>Properties of the exporter\<close>

lemma WriteRecord_row:
  assumes "WriteRecord env fm r w = (None, fm', w')"
  shows "rows_out w' = rows_out w @ [(r, partitionID fm')]"
proof -
  from assms obtain fm1 w1 fm3 w3 where
    s1: "if csvWriter fm = None \<and> db fm = None then initializeWriter env fm w = (None, fm1, w1)
     else fm1 = fm \<and> w1 = w" and
    s2: "if sint (MaxRecords (config fm1)) \<le> sint (recordCount fm1)
     then \<exists>fm2 w2. RotateWriter env fm1 w1 = (None, fm2, w2) \<and> initializeWriter env fm2 w2 = (None, fm3, w3)
     else fm3 = fm1 \<and> w3 = w1" and
    s3: "(if Format (config fm3) = FormatCSV then writeCSVRecord env fm3 r w3
      else if Format (config fm3) = FormatParquet then writeDuckDBRecord env fm3 r w3
      else (Some (Error (''unsupported format: '' @ Format (config fm3))), fm3, w3)) = (None, fm', w')"
    by (rule WriteRecord_okE)
  from s1 have a: "rows_out w1 = rows_out w"
    by (auto split: if_splits dest: initializeWriter_ok(5))
  have b: "rows_out w3 = rows_out w1"
  proof (cases "sint (MaxRecords (config fm1)) \<le> sint (recordCount fm1)")
    case True
    with s2 obtain fm2 w2 where ro: "RotateWriter env fm1 w1 = (None, fm2, w2)"
      and i: "initializeWriter env fm2 w2 = (None, fm3, w3)" by auto
    from RotateWriter_ok(3) [OF ro] initializeWriter_ok(5) [OF i] show ?thesis by simp
  next
    case False
    with s2 show ?thesis by simp
  qed
  from write_ok(1,2) [OF s3] a b show ?thesis by simp
qed

lemma FormatInt_0: "FormatInt 0 = ''0''"
  by (simp add: FormatInt_def nat_dec.simps digit_char_def)

text \<open>
  Claim C4, as the code has it. For a key whose type is none of string, set, hash, zset
  and list, \<^verbatim>\<open>exportKeyData\<close> writes nothing and returns size 0 and no error (with any
  fuel); \<^verbatim>\<open>exportKey\<close> then calls \<^verbatim>\<open>WriteRecord\<close> once, with the summary record of the key
  (its type, the value \<open>size=0\<close>), and returns what that call returns: when it succeeds
  exactly one row has been written.
\<close>

theorem unrecognized_type:
  assumes ty: "keyType \<noteq> ''string''" "keyType \<noteq> ''set''" "keyType \<noteq> ''hash''"
      "keyType \<noteq> ''zset''" "keyType \<noteq> ''list''"
    and rt: "redis_Type env (tick w) key = Inr keyType"
    and rl: "redis_TTL env (Suc (tick w)) key = Inr ttl"
  shows "exportKeyData fuel env fm key keyType w0 = Some (0, None, fm, tick_next w0)
    \<and> exportKey fuel env re key w
        = (case WriteRecord env (fileManager re)
                  \<lparr>Key = key, Type = keyType, Value = ''size=0'', TTLSeconds = ttlSeconds_of ttl,
                   ExportedAt = time_Format env ''UTC'' RFC3339 (clock env (tick w + 3))\<rparr>
                  (w\<lparr>tick := tick w + 4\<rparr>) of
             (e, fm2, w5) \<Rightarrow> Some (e, re\<lparr>fileManager := fm2\<rparr>, w5))
    \<and> (\<forall>re' w'. exportKey fuel env re key w = Some (None, re', w') \<longrightarrow>
          rows_out w' = rows_out w @
            [(\<lparr>Key = key, Type = keyType, Value = ''size=0'', TTLSeconds = ttlSeconds_of ttl,
               ExportedAt = time_Format env ''UTC'' RFC3339 (clock env (tick w + 3))\<rparr>,
              partitionID (fileManager re'))])"
proof -
  have d: "exportKeyData fuel env fm key keyType w0 = Some (0, None, fm, tick_next w0)" for fm w0
    using ty by (simp add: exportKeyData_def time_Now_def)
  have k: "exportKey fuel env re key w
        = (case WriteRecord env (fileManager re)
                  \<lparr>Key = key, Type = keyType, Value = ''size=0'', TTLSeconds = ttlSeconds_of ttl,
                   ExportedAt = time_Format env ''UTC'' RFC3339 (clock env (tick w + 3))\<rparr>
                  (w\<lparr>tick := tick w + 4\<rparr>) of
             (e, fm2, w5) \<Rightarrow> Some (e, re\<lparr>fileManager := fm2\<rparr>, w5))"
    using rt rl
    by (simp add: exportKey_def client_Type_def client_TTL_def sum_reply_def d tick_next_def
        time_Now_def FormatInt_0 Let_def eval_nat_numeral)
  have r: "rows_out w' = rows_out w @
            [(\<lparr>Key = key, Type = keyType, Value = ''size=0'', TTLSeconds = ttlSeconds_of ttl,
               ExportedAt = time_Format env ''UTC'' RFC3339 (clock env (tick w + 3))\<rparr>,
              partitionID (fileManager re'))]"
    if "exportKey fuel env re key w = Some (None, re', w')" for re' w'
  proof -
    from that k obtain fm2 where
      "WriteRecord env (fileManager re)
          \<lparr>Key = key, Type = keyType, Value = ''size=0'', TTLSeconds = ttlSeconds_of ttl,
           ExportedAt = time_Format env ''UTC'' RFC3339 (clock env (tick w + 3))\<rparr>
          (w\<lparr>tick := tick w + 4\<rparr>) = (None, fm2, w')" and "re' = re\<lparr>fileManager := fm2\<rparr>"
      by (auto split: prod.splits)
    from WriteRecord_row [OF this(1)] this(2) show ?thesis by simp
  qed
  from d k r show ?thesis by blast
qed

lemmas ex_defs = exportKey_def exportKeyData_def client_Type_def client_TTL_def client_HScan_def
  sum_reply_def ttlSeconds_of_def RFC3339_def env_stream_def env_hash_def fm_new_def world_new_def
  exporter_new_def

text \<open>The claim as stated (no record for such a key) fails for a key of type stream:
  \<^verbatim>\<open>exportKey\<close> writes one row and returns no error.\<close>

theorem unrecognized_type_counterexample:
  "map_option (rows_out \<circ> snd \<circ> snd) (exportKey 1 env_stream exporter_new ''k'' world_new)
     = Some [(\<lparr>Key = ''k'', Type = ''stream'', Value = ''size=0'', TTLSeconds = - 1,
               ExportedAt = ''2006-01-02T15:04:05Z07:00''\<rparr>, 1)]
   \<and> map_option fst (exportKey 1 env_stream exporter_new ''k'' world_new) = Some None"
  by (simp add: ex_defs fm_defs)

lemma exportKeyData_hash_page:
  assumes "redis_HScan env (Suc (tick w)) k 0 = Inr (flds, 0)"
  shows "exportKeyData (Suc n) env fm k ''hash'' w =
      (case hash_fields env k (time_Format env ''UTC'' RFC3339 (clock env (tick w))) flds fm 0
              (tick_next (tick_next w)) of
         (Some e, fm1, totalSize1, w2) \<Rightarrow> Some (0, Some e, fm1, w2)
       | (None, fm1, totalSize1, w2) \<Rightarrow> Some (totalSize1, None, fm1, w2))"
  using assms
  by (simp add: exportKeyData_def time_Now_def client_HScan_def sum_reply_def tick_next_def Let_def
      split: prod.splits option.splits)

text \<open>
  Claim C8. When the sub-scan of the hash \<open>k\<close> replies \<open>a, 1, b, 2\<close> with cursor 0,
  \<^verbatim>\<open>exportKeyData\<close> returns (with any fuel but none), and when it returns no error it has
  written exactly two rows, of type \<open>hash_field\<close>, with keys \<open>k:field:a\<close> and \<open>k:field:b\<close>
  and values \<open>1\<close> and \<open>2\<close>, in this order, and the size it returns is 4.
\<close>

theorem hash_flattening:
  assumes reply: "redis_HScan env (Suc (tick w)) k 0 = Inr ([''a'', ''1'', ''b'', ''2''], 0)"
  shows "\<exists>sz e fm' w'. exportKeyData (Suc n) env fm k ''hash'' w = Some (sz, e, fm', w')
    \<and> (e = None \<longrightarrow> sz = 4 \<and> (\<exists>p1 p2. rows_out w' = rows_out w @
          [(\<lparr>Key = k @ '':field:a'', Type = ''hash_field'', Value = ''1'', TTLSeconds = - 1,
             ExportedAt = time_Format env ''UTC'' RFC3339 (clock env (tick w))\<rparr>, p1),
           (\<lparr>Key = k @ '':field:b'', Type = ''hash_field'', Value = ''2'', TTLSeconds = - 1,
             ExportedAt = time_Format env ''UTC'' RFC3339 (clock env (tick w))\<rparr>, p2)]))"
proof -
  let ?ts = "time_Format env ''UTC'' RFC3339 (clock env (tick w))"
  let ?ra = "\<lparr>Key = k @ '':field:a'', Type = ''hash_field'', Value = ''1'', TTLSeconds = - 1,
             ExportedAt = ?ts\<rparr>"
  let ?rb = "\<lparr>Key = k @ '':field:b'', Type = ''hash_field'', Value = ''2'', TTLSeconds = - 1,
             ExportedAt = ?ts\<rparr>"
  let ?w1 = "tick_next (tick_next w)"
  note unfold = exportKeyData_hash_page [OF reply, of n fm]
  obtain e1 fm1 w1 where a: "WriteRecord env fm ?ra ?w1 = (e1, fm1, w1)"
    by (cases "WriteRecord env fm ?ra ?w1")
  obtain e2 fm2 w2 where b: "WriteRecord env fm1 ?rb w1 = (e2, fm2, w2)"
    by (cases "WriteRecord env fm1 ?rb w1")
  show ?thesis
  proof (cases e1)
    case (Some err)
    with a unfold show ?thesis by simp
  next
    case n1: None
    show ?thesis
    proof (cases e2)
      case (Some err)
      with a b n1 unfold show ?thesis by simp
    next
      case None
      from WriteRecord_row [OF a [unfolded n1]] WriteRecord_row [OF b [unfolded None]]
      have "rows_out w2 = rows_out w @ [(?ra, partitionID fm1), (?rb, partitionID fm2)]"
        by (simp add: tick_next_def)
      with a b n1 None unfold show ?thesis by simp
    qed
  qed
qed

theorem hash_flattening_witness:
  "redis_HScan env_hash (Suc (tick world_new)) ''k'' 0 = Inr ([''a'', ''1'', ''b'', ''2''], 0)
   \<and> map_option (map fst \<circ> rows_out \<circ> snd \<circ> snd \<circ> snd)
        (exportKeyData 1 env_hash fm_new ''k'' ''hash'' world_new)
     = Some [\<lparr>Key = ''k:field:a'', Type = ''hash_field'', Value = ''1'', TTLSeconds = - 1,
               ExportedAt = ''2006-01-02T15:04:05Z07:00''\<rparr>,
             \<lparr>Key = ''k:field:b'', Type = ''hash_field'', Value = ''2'', TTLSeconds = - 1,
               ExportedAt = ''2006-01-02T15:04:05Z07:00''\<rparr>]"
proof -
  have h: "redis_HScan env_hash (Suc (tick world_new)) ''k'' 0 = Inr ([''a'', ''1'', ''b'', ''2''], 0)"
    by (simp add: env_hash_def)
  have ok: "map_option (fst \<circ> snd) (exportKeyData 1 env_hash fm_new ''k'' ''hash'' world_new) = Some None"
    unfolding One_nat_def exportKeyData_hash_page [OF h, of 0 fm_new]
    by (simp add: ex_defs fm_defs)
  have r0: "rows_out world_new = []" by (simp add: world_new_def NewFileManager_def prims Let_def world0_def)
  have ts: "time_Format env_hash ''UTC'' RFC3339 (clock env_hash (tick world_new)) = ''2006-01-02T15:04:05Z07:00''"
    by (simp add: env_hash_def env_ok_def RFC3339_def)
  from hash_flattening [OF h, of 0 fm_new] obtain sz e fm' w' where
    r: "exportKeyData (Suc 0) env_hash fm_new ''k'' ''hash'' world_new = Some (sz, e, fm', w')"
    and i: "e = None \<longrightarrow> sz = 4 \<and> (\<exists>p1 p2. rows_out w' = rows_out world_new @
          [(\<lparr>Key = ''k'' @ '':field:a'', Type = ''hash_field'', Value = ''1'', TTLSeconds = - 1,
             ExportedAt = time_Format env_hash ''UTC'' RFC3339 (clock env_hash (tick world_new))\<rparr>, p1),
           (\<lparr>Key = ''k'' @ '':field:b'', Type = ''hash_field'', Value = ''2'', TTLSeconds = - 1,
             ExportedAt = time_Format env_hash ''UTC'' RFC3339 (clock env_hash (tick world_new))\<rparr>, p2)])"
    by blast
  from ok r have "e = None" by simp
  with i obtain p1 p2 where "rows_out w' = rows_out world_new @
          [(\<lparr>Key = ''k'' @ '':field:a'', Type = ''hash_field'', Value = ''1'', TTLSeconds = - 1,
             ExportedAt = time_Format env_hash ''UTC'' RFC3339 (clock env_hash (tick world_new))\<rparr>, p1),
           (\<lparr>Key = ''k'' @ '':field:b'', Type = ''hash_field'', Value = ''2'', TTLSeconds = - 1,
             ExportedAt = time_Format env_hash ''UTC'' RFC3339 (clock env_hash (tick world_new))\<rparr>, p2)]"
    by blast
  then have "map fst (rows_out w')
     = [\<lparr>Key = ''k:field:a'', Type = ''hash_field'', Value = ''1'', TTLSeconds = - 1,
               ExportedAt = ''2006-01-02T15:04:05Z07:00''\<rparr>,
             \<lparr>Key = ''k:field:b'', Type = ''hash_field'', Value = ''2'', TTLSeconds = - 1,
               ExportedAt = ''2006-01-02T15:04:05Z07:00''\<rparr>]"
    by (simp add: r0 ts)
  with r h show ?thesis by simp
qed

theorem unrecognized_type_witness:
  "''stream'' \<noteq> ''string'' \<and> ''stream'' \<noteq> ''set'' \<and> ''stream'' \<noteq> ''hash''
   \<and> ''stream'' \<noteq> ''zset'' \<and> ''stream'' \<noteq> ''list''
   \<and> redis_Type env_stream (tick world_new) ''k'' = Inr ''stream''
   \<and> redis_TTL env_stream (Suc (tick world_new)) ''k'' = Inr (- 1)
   \<and> exportKeyData 0 env_stream fm_new ''k'' ''stream'' world_new
       = Some (0, None, fm_new, tick_next world_new)"
proof -
  have t: "''stream'' \<noteq> ''string''" "''stream'' \<noteq> ''set''" "''stream'' \<noteq> ''hash''"
    "''stream'' \<noteq> ''zset''" "''stream'' \<noteq> ''list''" by simp_all
  have r: "redis_Type env_stream (tick world_new) ''k'' = Inr ''stream''"
    "redis_TTL env_stream (Suc (tick world_new)) ''k'' = Inr (- 1)"
    by (simp_all add: env_stream_def env_ok_def)
  from unrecognized_type [OF t r, of 0 fm_new world_new]
  have d: "exportKeyData 0 env_stream fm_new ''k'' ''stream'' world_new
       = Some (0, None, fm_new, tick_next world_new)" by (rule conjunct1)
  show ?thesis by (intro conjI) (rule t r d)+
qed

lemma replicate_3: "replicate 3 c = [c, c, c]"
  by (simp add: numeral_3_eq_3)

lemma RotateWriter_frame:
  assumes "RotateWriter env fm w = (e, fm', w')"
  shows "(\<forall>p. p \<notin> set (open_partition_files env fm) \<longrightarrow> map_of (files w') p = map_of (files w) p)
    \<and> (\<exists>ps. Partitions (metadata fm') = Partitions (metadata fm) @ ps)"
  using assms
  by (auto simp: RotateWriter_def rotateCSVWriter_def rotateDuckDBWriter_def prims Let_def
      open_partition_files_def parquet_path_def update_conv'
      split: prod.splits option.splits sum.splits if_splits)

lemma final_rotation_frame:
  assumes "final_rotation env fm w = (e, fm', w')"
  shows "(\<forall>p. p \<notin> set (open_partition_files env fm) \<longrightarrow> map_of (files w') p = map_of (files w) p)
    \<and> (\<exists>ps. Partitions (metadata fm') = Partitions (metadata fm) @ ps)"
proof (cases "0 < sint (recordCount fm)")
  case True
  with assms RotateWriter_frame [of env fm w e fm' w'] show ?thesis
    by (simp add: final_rotation_def)
next
  case False
  with assms show ?thesis by (simp add: final_rotation_def)
qed

text \<open>
  Claim C5, as the code has it. When \<^verbatim>\<open>FileManager.Close\<close> returns an error, which it does
  for a failed \<^verbatim>\<open>os.Create\<close> or \<^verbatim>\<open>Encode\<close> of the metadata file, \<^verbatim>\<open>RedisExporter.Close\<close> logs
  it and returns the result of closing the client. The partitions rotated before stay as they
  are: closing changes no file other than the metadata file and the files of the partition that
  was still open, and the partition entries recorded before are still the first entries of the
  metadata.
\<close>

theorem close_error_logged:
  assumes cl: "Close env (fileManager re) w = (Some (Error m), fm1, w1)"
  shows "RedisExporter_Close env re w
           = (map_option Error (redis_Close env (tick w1)), re\<lparr>fileManager := fm1\<rparr>,
              tick_next (log_Printf (''Error closing file manager: '' @ m) w1))
    \<and> (\<forall>p. p \<noteq> metadataPath env (fileManager re) \<and>
            p \<notin> set (open_partition_files env (fileManager re)) \<longrightarrow>
          map_of (files (snd (snd (RedisExporter_Close env re w)))) p = map_of (files w) p)
    \<and> take (length (Partitions (metadata (fileManager re)))) (Partitions (metadata fm1))
        = Partitions (metadata (fileManager re))"
proof -
  have a: "RedisExporter_Close env re w
           = (map_option Error (redis_Close env (tick w1)), re\<lparr>fileManager := fm1\<rparr>,
              tick_next (log_Printf (''Error closing file manager: '' @ m) w1))"
    using cl by (simp add: RedisExporter_Close_def client_Close_def log_Printf_def tick_next_def)
  obtain e0 fm0 w0 where fr: "final_rotation env (fileManager re) w = (e0, fm0, w0)"
    by (cases "final_rotation env (fileManager re) w")
  note t = Close_tail [OF cl fr]
  note f = final_rotation_frame [OF fr]
  from t(1) f a have b: "\<forall>p. p \<noteq> metadataPath env (fileManager re) \<and>
            p \<notin> set (open_partition_files env (fileManager re)) \<longrightarrow>
          map_of (files (snd (snd (RedisExporter_Close env re w)))) p = map_of (files w) p"
    by (simp add: log_Printf_def tick_next_def)
  from f obtain ps where "Partitions (metadata fm0) = Partitions (metadata (fileManager re)) @ ps"
    by blast
  with t(2) have c: "take (length (Partitions (metadata (fileManager re)))) (Partitions (metadata fm1))
        = Partitions (metadata (fileManager re))"
    by simp
  from a b c show ?thesis by (intro conjI)
qed

text \<open>The claim as stated (the error is returned by the exporter's \<^verbatim>\<open>Close\<close>) fails on a
  full disk: \<^verbatim>\<open>FileManager.Close\<close> returns the error, \<^verbatim>\<open>RedisExporter.Close\<close> logs it and
  returns \<^verbatim>\<open>nil\<close>.\<close>

theorem close_error_counterexample:
  "fst (Close env_full fm_new world_new) = Some (Error ''failed to create metadata file: disk full'')
   \<and> fst (RedisExporter_Close env_full exporter_new world_new) = None
   \<and> logged (snd (snd (RedisExporter_Close env_full exporter_new world_new)))
       = [''Error closing file manager: failed to create metadata file: disk full'']"
  by (simp add: RedisExporter_Close_def close_defs client_Close_def env_full_def
      fm_new_def world_new_def exporter_new_def fm_defs)

theorem close_error_logged_witness:
  "fst (Close env_metadata_fails (fileManager exporter_three) world_three)
     = Some (Error ''failed to write metadata: disk full'')
   \<and> fst (RedisExporter_Close env_metadata_fails exporter_three world_three) = None
   \<and> logged (snd (snd (RedisExporter_Close env_metadata_fails exporter_three world_three)))
       = [''Error closing file manager: failed to write metadata: disk full'']
   \<and> map_of (files (snd (snd (RedisExporter_Close env_metadata_fails exporter_three world_three))))
        ''out/year=2006/month=01/day=02/hour=15/redis_data_part_0001.csv''
       = Some (Lines [csv_headers, [''a'', ''string'', ''v'', ''-1'', ''t'', ''1''],
                      [''b'', ''string'', ''v'', ''-1'', ''t'', ''1'']])
   \<and> map (sint \<circ> RecordCount) (Partitions (metadata (fileManager exporter_three))) = [2]
   \<and> take 1 (Partitions (metadata (fst (snd (Close env_metadata_fails (fileManager exporter_three)
        world_three))))) = Partitions (metadata (fileManager exporter_three))"
proof -
  let ?cl = "Close env_metadata_fails (fileManager exporter_three) world_three"
  let ?p = "''out/year=2006/month=01/day=02/hour=15/redis_data_part_0001.csv''"
  have e: "fst ?cl = Some (Error ''failed to write metadata: disk full'')"
    and l: "logged (snd (snd ?cl)) = []"
    by (simp_all add: close_defs env_metadata_fails_def exporter_three_def fm_three_def
        world_three_def fm_defs)
  then have h: "?cl = (Some (Error ''failed to write metadata: disk full''), fst (snd ?cl), snd (snd ?cl))"
    by (metis prod.collapse)
  have p: "?p \<noteq> metadataPath env_metadata_fails (fileManager exporter_three)
      \<and> ?p \<notin> set (open_partition_files env_metadata_fails (fileManager exporter_three))"
    by (simp add: close_defs open_partition_files_def parquet_path_def env_metadata_fails_def
        exporter_three_def fm_three_def world_three_def fm_defs)
  have f: "map_of (files world_three) ?p
       = Some (Lines [csv_headers, [''a'', ''string'', ''v'', ''-1'', ''t'', ''1''],
                      [''b'', ''string'', ''v'', ''-1'', ''t'', ''1'']])"
    and n: "length (Partitions (metadata (fileManager exporter_three))) = 1"
    and c: "map (sint \<circ> RecordCount) (Partitions (metadata (fileManager exporter_three))) = [2]"
    by (simp_all add: exporter_three_def fm_three_def world_three_def fm_defs replicate_3)
  note t = close_error_logged [OF h]
  from t have t1: "fst (RedisExporter_Close env_metadata_fails exporter_three world_three) = None"
    and t2: "logged (snd (snd (RedisExporter_Close env_metadata_fails exporter_three world_three)))
       = [''Error closing file manager: failed to write metadata: disk full'']"
    using l by (simp_all add: env_metadata_fails_def env_ok_def log_Printf_def tick_next_def)
  from t p have t3: "map_of (files (snd (snd (RedisExporter_Close env_metadata_fails exporter_three
        world_three)))) ?p = map_of (files world_three) ?p"
    by blast
  from t n have t4: "take 1 (Partitions (metadata (fst (snd ?cl))))
      = Partitions (metadata (fileManager exporter_three))"
    by simp
  from e t1 t2 t3 f c t4 show ?thesis by simp
qed

lemma keysOnly_keys_err:
  "keysOnly_keys env keyTypes keyTTLs ts keys fm count w = (Some e, fm', count', w') \<Longrightarrow> is_panic (Some e)"
proof (induction keys arbitrary: fm count w)
  case Nil
  then show ?case by simp
next
  case (Cons key keys)
  show ?case
  proof (cases "keyTypes key")
    case (Inl m)
    with Cons.prems Cons.IH show ?thesis by simp
  next
    case kt: (Inr keyType)
    show ?thesis
    proof (cases "keyTTLs key")
      case (Inl m)
      with kt Cons.prems Cons.IH show ?thesis by simp
    next
      case (Inr ttl)
      with kt Cons.prems Cons.IH show ?thesis
        by (auto simp: Let_def split: prod.splits option.splits if_splits)
    qed
  qed
qed

lemma flush_periodically_err:
  "flush_periodically env re count w = (Some e, re', w') \<Longrightarrow> is_panic (Some e)"
  by (auto simp: flush_periodically_def split: if_splits prod.splits)

lemma client_Scan_err:
  "client_Scan env cursor pattern n w = (Inl e, w1) \<Longrightarrow> \<exists>m. e = Error m"
  by (auto simp: client_Scan_def sum_reply_def split: sum.splits)

lemma ExportKeysOnly_loop_err:
  "ExportKeysOnly_loop n env re cursor count w = Some (Some e, re', count', w') \<Longrightarrow> scan_or_panic e"
proof (induction n arbitrary: re cursor count w)
  case 0
  then show ?case by simp
next
  case (Suc n)
  obtain r w1 where sc: "client_Scan env cursor ''*'' (batchSize re) w = (r, w1)"
    by (cases "client_Scan env cursor ''*'' (batchSize re) w")
  show ?case
  proof (cases r)
    case (Inl err)
    with sc client_Scan_err [of env cursor "''*''" "batchSize re" w err w1] Suc.prems show ?thesis
      by (auto simp: scan_or_panic_def)
  next
    case (Inr kc)
    obtain keys cursor1 where kc: "kc = (keys, cursor1)" by (cases kc)
    obtain pe keyTypes keyTTLs w2 where pi: "client_PipeExec env keys w1 = (pe, keyTypes, keyTTLs, w2)"
      by (cases "client_PipeExec env keys w1") auto
    show ?thesis
    proof (cases pe)
      case (Some m)
      with sc Inr kc pi Suc.prems Suc.IH show ?thesis by simp
    next
      case None
      with sc Inr kc pi Suc.prems Suc.IH show ?thesis
        by (auto simp: Let_def scan_or_panic_def split: prod.splits option.splits if_splits
            dest: keysOnly_keys_err flush_periodically_err)
    qed
  qed
qed

lemma byPattern_keys_err:
  "byPattern_keys fuel env keys re count w = Some (Some e, re', count', w') \<Longrightarrow> is_panic (Some e)"
proof (induction keys arbitrary: re count w)
  case Nil
  then show ?case by simp
next
  case (Cons key keys)
  from Cons.prems Cons.IH show ?case
    by (auto simp: Let_def split: prod.splits option.splits if_splits)
qed

lemma ExportByPattern_loop_err:
  "ExportByPattern_loop n env re pattern cursor count w = Some (Some e, re', count', w')
   \<Longrightarrow> scan_or_panic e"
proof (induction n arbitrary: re cursor count w)
  case 0
  then show ?case by simp
next
  case (Suc n)
  obtain r w1 where sc: "client_Scan env cursor pattern (batchSize re) w = (r, w1)"
    by (cases "client_Scan env cursor pattern (batchSize re) w")
  show ?case
  proof (cases r)
    case (Inl err)
    with sc client_Scan_err [of env cursor pattern "batchSize re" w err w1] Suc.prems show ?thesis
      by (auto simp: scan_or_panic_def)
  next
    case (Inr kc)
    obtain keys cursor1 where kc: "kc = (keys, cursor1)" by (cases kc)
    from sc Inr kc Suc.prems Suc.IH show ?thesis
      by (auto simp: scan_or_panic_def split: prod.splits option.splits if_splits
          dest: byPattern_keys_err simp del: byPattern_keys.simps)
  qed
qed

lemma deferred_Close_err:
  "deferred_Close env (err, re, w) = (Some e, re', w') \<Longrightarrow> err = Some e \<or> is_panic (Some e)"
  by (auto simp: deferred_Close_def split: prod.splits if_splits)

text \<open>
  Claim C3, as the code has it, for \<^verbatim>\<open>ExportKeysOnly\<close> and \<^verbatim>\<open>ExportByPattern\<close>. An error of
  \<^verbatim>\<open>WriteRecord\<close> does not end the run and is not returned by the mode. The loop of
  \<^verbatim>\<open>ExportKeysOnly\<close> logs the error, does not count the key, and goes on with the keys that
  are left. \<^verbatim>\<open>exportKey\<close> returns the error of its \<^verbatim>\<open>WriteRecord\<close>; the loop of
  \<^verbatim>\<open>ExportByPattern\<close> logs the error \<^verbatim>\<open>exportKey\<close> returns, does not count the key, and goes
  on with the keys that are left. An error that either mode returns is that of a failed key
  scan, unless the run panicked.
\<close>

theorem sink_errors_logged:
  "(keyTypes key = Inr keyType \<and> keyTTLs key = Inr ttl \<and>
    WriteRecord env fm
      \<lparr>Key = key, Type = keyType,
       Value = ''size_estimate='' @ FormatInt (sint (estimateKeySize key keyType)),
       TTLSeconds = ttlSeconds_of ttl, ExportedAt = timestamp\<rparr> w = (Some (Error m), fm1, w1)
    \<longrightarrow> keysOnly_keys env keyTypes keyTTLs timestamp (key # keys) fm count w
        = keysOnly_keys env keyTypes keyTTLs timestamp keys fm1 count
            (log_Printf (''Error writing key '' @ key @ '': '' @ m) w1))
   \<and> (client_Type env key w = (Inr keyType, wa) \<and> client_TTL env key wa = (Inr ttl, wb) \<and>
      exportKeyData fuel env (fileManager re) key keyType wb = Some (sz, None, fma, wc) \<and>
      WriteRecord env fma
        \<lparr>Key = key, Type = keyType, Value = ''size='' @ FormatInt (sint sz),
         TTLSeconds = ttlSeconds_of ttl,
         ExportedAt = time_Format env ''UTC'' RFC3339 (fst (time_Now env wc))\<rparr>
        (snd (time_Now env wc)) = (Some e, fmb, wd)
      \<longrightarrow> exportKey fuel env re key w = Some (Some e, re\<lparr>fileManager := fmb\<rparr>, wd))
   \<and> (exportKey fuel env re key w = Some (Some (Error m), re1, w1)
      \<longrightarrow> byPattern_keys fuel env (key # keys) re count w
          = byPattern_keys fuel env keys re1 count
              (log_Printf (''Error exporting key '' @ key @ '': '' @ m) w1))
   \<and> (ExportKeysOnly fuel env re w = Some (Some err, re', w') \<longrightarrow> scan_or_panic err)
   \<and> (ExportByPattern fuel env re pattern w = Some (Some err, re', w') \<longrightarrow> scan_or_panic err)"
proof (intro conjI impI)
  assume "keyTypes key = Inr keyType \<and> keyTTLs key = Inr ttl \<and>
    WriteRecord env fm
      \<lparr>Key = key, Type = keyType,
       Value = ''size_estimate='' @ FormatInt (sint (estimateKeySize key keyType)),
       TTLSeconds = ttlSeconds_of ttl, ExportedAt = timestamp\<rparr> w = (Some (Error m), fm1, w1)"
  then show "keysOnly_keys env keyTypes keyTTLs timestamp (key # keys) fm count w
        = keysOnly_keys env keyTypes keyTTLs timestamp keys fm1 count
            (log_Printf (''Error writing key '' @ key @ '': '' @ m) w1)"
    by (simp add: Let_def)
next
  assume "client_Type env key w = (Inr keyType, wa) \<and> client_TTL env key wa = (Inr ttl, wb) \<and>
      exportKeyData fuel env (fileManager re) key keyType wb = Some (sz, None, fma, wc) \<and>
      WriteRecord env fma
        \<lparr>Key = key, Type = keyType, Value = ''size='' @ FormatInt (sint sz),
         TTLSeconds = ttlSeconds_of ttl,
         ExportedAt = time_Format env ''UTC'' RFC3339 (fst (time_Now env wc))\<rparr>
        (snd (time_Now env wc)) = (Some e, fmb, wd)"
  then show "exportKey fuel env re key w = Some (Some e, re\<lparr>fileManager := fmb\<rparr>, wd)"
    by (simp add: exportKey_def Let_def split_beta)
next
  assume "exportKey fuel env re key w = Some (Some (Error m), re1, w1)"
  then show "byPattern_keys fuel env (key # keys) re count w
          = byPattern_keys fuel env keys re1 count
              (log_Printf (''Error exporting key '' @ key @ '': '' @ m) w1)"
    by simp
next
  assume "ExportKeysOnly fuel env re w = Some (Some err, re', w')"
  then show "scan_or_panic err"
    by (auto simp: ExportKeysOnly_def scan_or_panic_def [of err] split: option.splits prod.splits
        dest!: deferred_Close_err dest: ExportKeysOnly_loop_err [unfolded scan_or_panic_def])
next
  assume "ExportByPattern fuel env re pattern w = Some (Some err, re', w')"
  then show "scan_or_panic err"
    by (auto simp: ExportByPattern_def scan_or_panic_def [of err] Let_def split: option.splits prod.splits
        dest!: deferred_Close_err dest: ExportByPattern_loop_err [unfolded scan_or_panic_def])
qed

lemmas mode_defs = ExportKeysOnly_def ExportKeysOnlyByPattern_def ExportByPattern_def
  deferred_Close_def RedisExporter_Close_def close_defs client_Close_def client_Scan_def
  client_PipeExec_def client_Get_def flush_periodically_def flushAll_def FlushAll_def
  estimateKeySize_def SetMetadata_def GetQueryPath_def
  env_disk_recovers_def env_scan_fail_def env_full_def all_strings_def no_expiry_def

text \<open>The claim as stated (a failed \<^verbatim>\<open>WriteRecord\<close> ends the run with its error) fails when
  the disk is full for the first of two keys only: the write for \<open>k1\<close> fails, yet each mode
  returns \<^verbatim>\<open>nil\<close> and has gone on to write \<open>k2\<close>.\<close>

theorem sink_errors_counterexample:
  "map_option fst (ExportKeysOnly 1 (env_disk_recovers 7) exporter_new world_new) = Some None
   \<and> map_option (logged \<circ> snd \<circ> snd) (ExportKeysOnly 1 (env_disk_recovers 7) exporter_new world_new)
       = Some [''Error writing key k1: failed to create partition directory: disk full'']
   \<and> map_option (map (Key \<circ> fst) \<circ> rows_out \<circ> snd \<circ> snd)
        (ExportKeysOnly 1 (env_disk_recovers 7) exporter_new world_new) = Some [''k2'']
   \<and> map_option (stdout \<circ> snd \<circ> snd) (ExportKeysOnly 1 (env_disk_recovers 7) exporter_new world_new)
       = Some [''Starting Redis key metadata export (keys only)...'',
               ''Key export completed! Total keys exported: 1'']
   \<and> map_option fst (ExportKeysOnlyByPattern 1 (env_disk_recovers 7) exporter_new ''*'' world_new)
       = Some None
   \<and> map_option (map (Key \<circ> fst) \<circ> rows_out \<circ> snd \<circ> snd)
        (ExportKeysOnlyByPattern 1 (env_disk_recovers 7) exporter_new ''*'' world_new) = Some [''k2'']
   \<and> map_option fst (ExportByPattern 1 (env_disk_recovers 10) exporter_new ''*'' world_new) = Some None
   \<and> map_option (logged \<circ> snd \<circ> snd)
        (ExportByPattern 1 (env_disk_recovers 10) exporter_new ''*'' world_new)
       = Some [''Error exporting key k1: failed to create partition directory: disk full'']
   \<and> map_option (map (Key \<circ> fst) \<circ> rows_out \<circ> snd \<circ> snd)
        (ExportByPattern 1 (env_disk_recovers 10) exporter_new ''*'' world_new) = Some [''k2'']"
  by (simp add: mode_defs ex_defs fm_defs signed_modulo_int_def)

theorem sink_errors_logged_witness:
  "fst (WriteRecord env_full fm_new
          \<lparr>Key = ''k'', Type = ''string'', Value = ''size_estimate=1'', TTLSeconds = - 1,
           ExportedAt = ''t''\<rparr> world_new)
     = Some (Error ''failed to create partition directory: disk full'')
   \<and> fst (keysOnly_keys env_full all_strings no_expiry ''t'' [''k''] fm_new 0 world_new) = None
   \<and> fst (snd (snd (keysOnly_keys env_full all_strings no_expiry ''t'' [''k''] fm_new 0 world_new))) = 0
   \<and> logged (snd (snd (snd (keysOnly_keys env_full all_strings no_expiry ''t'' [''k''] fm_new 0 world_new))))
       = [''Error writing key k: failed to create partition directory: disk full'']
   \<and> map_option fst (exportKey 1 env_full exporter_new ''k'' world_new)
       = Some (Some (Error ''failed to create partition directory: disk full''))
   \<and> map_option fst (byPattern_keys 1 env_full [''k''] exporter_new 0 world_new) = Some None
   \<and> map_option (fst \<circ> snd \<circ> snd) (byPattern_keys 1 env_full [''k''] exporter_new 0 world_new) = Some 0
   \<and> map_option (logged \<circ> snd \<circ> snd \<circ> snd) (byPattern_keys 1 env_full [''k''] exporter_new 0 world_new)
       = Some [''Error exporting key k: failed to create partition directory: disk full'']
   \<and> map_option fst (ExportKeysOnly 1 env_scan_fail exporter_new world_new)
       = Some (Some (Error ''failed to scan keys: connection reset''))
   \<and> map_option fst (ExportByPattern 1 env_scan_fail exporter_new ''*'' world_new)
       = Some (Some (Error ''failed to scan keys: connection reset''))
   \<and> scan_or_panic (Error ''failed to scan keys: connection reset'')"
proof -
  let ?m = "''failed to create partition directory: disk full''"
  let ?r = "\<lparr>Key = ''k'', Type = ''string'', Value = ''size_estimate=1'', TTLSeconds = - 1,
           ExportedAt = ''t''\<rparr>"
  let ?s = "Error ''failed to scan keys: connection reset''"
  have wr: "fst (WriteRecord env_full fm_new ?r world_new) = Some (Error ?m)"
    and wl: "logged (snd (snd (WriteRecord env_full fm_new ?r world_new))) = []"
    by (simp_all add: mode_defs ex_defs fm_defs)
  obtain fm1 w1 where w1: "WriteRecord env_full fm_new ?r world_new = (Some (Error ?m), fm1, w1)"
    using wr by (cases "WriteRecord env_full fm_new ?r world_new") auto
  have rr: "\<lparr>Key = ''k'', Type = ''string'',
       Value = ''size_estimate='' @ FormatInt (sint (estimateKeySize ''k'' ''string'')),
       TTLSeconds = ttlSeconds_of (- 1), ExportedAt = ''t''\<rparr> = ?r"
    by (simp add: mode_defs ex_defs fm_defs)
  have k: "keysOnly_keys env_full all_strings no_expiry ''t'' [''k''] fm_new 0 world_new
      = (None, fm1, 0, log_Printf (''Error writing key k: '' @ ?m) w1)"
    using sink_errors_logged [where keyTypes = all_strings and keyTTLs = no_expiry and key = "''k''"
        and keyType = "''string''" and ttl = "- 1" and env = env_full and fm = fm_new
        and timestamp = "''t''" and w = world_new and m = ?m and ?fm1.0 = fm1 and ?w1.0 = w1
        and keys = "[]" and count = 0] w1 rr
    by (simp add: all_strings_def no_expiry_def del: keysOnly_keys.simps(2))
  have ek0: "client_Type env_full ''k'' world_new = (Inr ''string'', tick_next world_new)"
    "client_TTL env_full ''k'' (tick_next world_new) = (Inr (- 1), tick_next (tick_next world_new))"
    by (simp_all add: mode_defs ex_defs fm_defs)
  obtain wc where ed: "exportKeyData 1 env_full (fileManager exporter_new) ''k'' ''string''
        (tick_next (tick_next world_new)) = Some (0, None, fm_new, wc)"
    by (simp add: mode_defs ex_defs fm_defs)
  have ws: "fst (WriteRecord env_full fm_new
        \<lparr>Key = ''k'', Type = ''string'', Value = ''size='' @ FormatInt (sint (0 :: int64)),
         TTLSeconds = ttlSeconds_of (- 1),
         ExportedAt = time_Format env_full ''UTC'' RFC3339 (fst (time_Now env_full wc))\<rparr>
        (snd (time_Now env_full wc))) = Some (Error ?m)"
    using ed by (simp add: mode_defs ex_defs fm_defs)
  then obtain fmb wd where ws': "WriteRecord env_full fm_new
        \<lparr>Key = ''k'', Type = ''string'', Value = ''size='' @ FormatInt (sint (0 :: int64)),
         TTLSeconds = ttlSeconds_of (- 1),
         ExportedAt = time_Format env_full ''UTC'' RFC3339 (fst (time_Now env_full wc))\<rparr>
        (snd (time_Now env_full wc)) = (Some (Error ?m), fmb, wd)"
    by (cases "WriteRecord env_full fm_new
        \<lparr>Key = ''k'', Type = ''string'', Value = ''size='' @ FormatInt (sint (0 :: int64)),
         TTLSeconds = ttlSeconds_of (- 1),
         ExportedAt = time_Format env_full ''UTC'' RFC3339 (fst (time_Now env_full wc))\<rparr>
        (snd (time_Now env_full wc))") auto
  have ek: "exportKey 1 env_full exporter_new ''k'' world_new
      = Some (Some (Error ?m), exporter_new\<lparr>fileManager := fmb\<rparr>, wd)"
    using sink_errors_logged [where env = env_full and key = "''k''" and w = world_new
        and keyType = "''string''" and wa = "tick_next world_new" and ttl = "- 1"
        and wb = "tick_next (tick_next world_new)" and fuel = 1 and re = exporter_new and sz = 0
        and fma = fm_new and wc = wc and e = "Error ?m" and fmb = fmb and wd = wd] ek0 ed ws'
    by simp
  have el: "map_option (logged \<circ> snd \<circ> snd) (exportKey 1 env_full exporter_new ''k'' world_new) = Some []"
    by (simp add: mode_defs ex_defs fm_defs)
  have b: "byPattern_keys 1 env_full [''k''] exporter_new 0 world_new
      = Some (None, exporter_new\<lparr>fileManager := fmb\<rparr>, 0, log_Printf (''Error exporting key k: '' @ ?m) wd)"
    using sink_errors_logged [where env = env_full and key = "''k''" and w = world_new and fuel = 1
        and re = exporter_new and m = ?m and ?re1.0 = "exporter_new\<lparr>fileManager := fmb\<rparr>"
        and ?w1.0 = wd and keys = "[]" and count = 0] ek
    by (simp del: byPattern_keys.simps(2))
  have a: "map_option fst (ExportKeysOnly 1 env_scan_fail exporter_new world_new) = Some (Some ?s)"
    by (simp add: mode_defs ex_defs fm_defs)
  have c: "map_option fst (ExportByPattern 1 env_scan_fail exporter_new ''*'' world_new) = Some (Some ?s)"
    by (simp add: mode_defs ex_defs fm_defs)
  from a obtain ra wa where a': "ExportKeysOnly 1 env_scan_fail exporter_new world_new = Some (Some ?s, ra, wa)"
    by (cases "ExportKeysOnly 1 env_scan_fail exporter_new world_new") auto
  from c obtain rc wc' where c': "ExportByPattern 1 env_scan_fail exporter_new ''*'' world_new
      = Some (Some ?s, rc, wc')"
    by (cases "ExportByPattern 1 env_scan_fail exporter_new ''*'' world_new") auto
  have s1: "scan_or_panic ?s"
    using sink_errors_logged [where fuel = 1 and env = env_scan_fail and re = exporter_new
      and w = world_new and err = ?s and re' = ra and w' = wa,
      THEN conjunct2, THEN conjunct2, THEN conjunct2, THEN conjunct1, THEN mp, OF a']
    by simp
  have s2: "scan_or_panic ?s"
    using sink_errors_logged [where fuel = 1 and env = env_scan_fail and re = exporter_new
      and w = world_new and err = ?s and re' = rc and w' = wc' and pattern = "''*''",
      THEN conjunct2, THEN conjunct2, THEN conjunct2, THEN conjunct2, THEN mp, OF c']
    by simp
  from ek el have wdl: "logged wd = []" by simp
  show ?thesis
    using wr k wl w1 ek b wdl a c s1 by (simp add: log_Printf_def)
qed

end
